theory Spec2Isabelle
  imports Complex_Main
begin

section \<open>JavaScript values\<close>

text \<open>
  The values the demo handles are the ones \<^verbatim>\<open>JSON.parse\<close> and
  \<^verbatim>\<open>response.json()\<close> produce, together with \<^verbatim>\<open>undefined\<close>
  (a missing property or a missing argument). Numbers are kept as exact rationals: the
  program never computes with them, it only tests them for truthiness and passes them on.
  An object is the list of its members in source order; a later member with the same key
  overrides an earlier one, as in \<^verbatim>\<open>JSON.parse\<close>.
\<close>

datatype jsval =
    JUndefined
  | JNull
  | JBool bool
  | JNum rat
  | JStr string
  | JArr "jsval list"
  | JObj "(string \<times> jsval) list"

text \<open>
  What the program can throw. \<open>Error m\<close> is \<^verbatim>\<open>new Error(m)\<close>;
  \<open>FailedToConnect st txt\<close> is the error setupWebRTC builds from the status code and
  status text of a non-2xx answer; \<open>Rejected r\<close> is a rejection reason supplied by the
  browser (a denied capture device, a network failure).
\<close>

datatype error =
    SyntaxError
  | TypeError
  | InvalidStateError
  | Error jsval
  | FailedToConnect nat string
  | Rejected string

text \<open>Truthiness, as \<^verbatim>\<open>if (v)\<close>, \<^verbatim>\<open>!v\<close> and \<^verbatim>\<open>a || b\<close> test it.\<close>

fun truthy :: "jsval \<Rightarrow> bool" where
  "truthy JUndefined = False"
| "truthy JNull = False"
| "truthy (JBool b) = b"
| "truthy (JNum r) = (r \<noteq> 0)"
| "truthy (JStr s) = (s \<noteq> [])"
| "truthy (JArr xs) = True"
| "truthy (JObj kvs) = True"

definition nullish :: "jsval \<Rightarrow> bool" where
  "nullish v = (v = JUndefined \<or> v = JNull)"

text \<open>
  Property read \<^verbatim>\<open>v.k\<close> for a property name that is not an array index. Reading a
  property of \<^verbatim>\<open>null\<close> or \<^verbatim>\<open>undefined\<close> throws a TypeError. Arrays and
  strings answer \<^verbatim>\<open>length\<close>; none of the names the program reads is inherited from
  a prototype, so every other read of a non-object gives \<^verbatim>\<open>undefined\<close>.
\<close>

definition own :: "(string \<times> jsval) list \<Rightarrow> string \<Rightarrow> jsval" where
  "own kvs k = (case map_of (rev kvs) k of None \<Rightarrow> JUndefined | Some v \<Rightarrow> v)"

fun field :: "jsval \<Rightarrow> string \<Rightarrow> error + jsval" where
  "field JUndefined k = Inl TypeError"
| "field JNull k = Inl TypeError"
| "field (JObj kvs) k = Inr (own kvs k)"
| "field (JArr xs) k = Inr (if k = ''length'' then JNum (of_nat (length xs)) else JUndefined)"
| "field (JStr s) k = Inr (if k = ''length'' then JNum (of_nat (length s)) else JUndefined)"
| "field (JBool b) k = Inr JUndefined"
| "field (JNum r) k = Inr JUndefined"

text \<open>Element read \<^verbatim>\<open>v[0]\<close>.\<close>

fun index0 :: "jsval \<Rightarrow> error + jsval" where
  "index0 JUndefined = Inl TypeError"
| "index0 JNull = Inl TypeError"
| "index0 (JObj kvs) = Inr (own kvs ''0'')"
| "index0 (JArr xs) = Inr (case xs of [] \<Rightarrow> JUndefined | x # _ \<Rightarrow> x)"
| "index0 (JStr s) = Inr (case s of [] \<Rightarrow> JUndefined | c # _ \<Rightarrow> JStr [c])"
| "index0 (JBool b) = Inr JUndefined"
| "index0 (JNum r) = Inr JUndefined"

text \<open>Optional chaining: \<^verbatim>\<open>v?.k\<close> and \<^verbatim>\<open>v?.[0]\<close> never throw.\<close>

definition opt_field :: "jsval \<Rightarrow> string \<Rightarrow> jsval" where
  "opt_field v k = (case field v k of Inl e \<Rightarrow> JUndefined | Inr x \<Rightarrow> x)"

definition opt_index0 :: "jsval \<Rightarrow> jsval" where
  "opt_index0 v = (case index0 v of Inl e \<Rightarrow> JUndefined | Inr x \<Rightarrow> x)"

text \<open>
  The items a \<^verbatim>\<open>for (const item of v)\<close> loop visits: the elements of an array, the
  characters of a string; any other value reached here is not iterable.
\<close>

fun iterate :: "jsval \<Rightarrow> error + jsval list" where
  "iterate (JArr xs) = Inr xs"
| "iterate (JStr s) = Inr (map (\<lambda>c. JStr [c]) s)"
| "iterate v = Inl TypeError"

section \<open>A reference JSON reader\<close>

text \<open>
  \<^verbatim>\<open>JSON.parse\<close> belongs to the runtime, not to the repository: the dispatcher below
  takes it as a parameter, \<open>None\<close> standing for the SyntaxError it throws. The reader
  defined here follows the JSON grammar on 8-bit text and serves as the concrete parser of
  the worked examples. A \<^verbatim>\<open>\u\<close> escape above \<^verbatim>\<open>00FF\<close> has no 8-bit
  character and is not read, and numbers are read as exact rationals, where the runtime
  rounds to a double. The frames of the examples are ASCII and hold no number.
\<close>

definition is_ws :: "char \<Rightarrow> bool" where
  "is_ws c = (c = CHR '' '' \<or> c = CHR 0x09 \<or> c = CHR 0x0A \<or> c = CHR 0x0D)"

definition is_digit :: "char \<Rightarrow> bool" where
  "is_digit c = (48 \<le> (of_char c :: nat) \<and> (of_char c :: nat) \<le> 57)"

definition digit_val :: "char \<Rightarrow> nat" where
  "digit_val c = of_char c - 48"

definition digits_val :: "string \<Rightarrow> nat" where
  "digits_val ds = foldl (\<lambda>n c. 10 * n + digit_val c) 0 ds"

definition hex_val :: "char \<Rightarrow> nat option" where
  "hex_val c =
     (let n = (of_char c :: nat) in
      if 48 \<le> n \<and> n \<le> 57 then Some (n - 48)
      else if 65 \<le> n \<and> n \<le> 70 then Some (n - 55)
      else if 97 \<le> n \<and> n \<le> 102 then Some (n - 87)
      else None)"

fun skip_ws :: "string \<Rightarrow> string" where
  "skip_ws [] = []"
| "skip_ws (c # cs) = (if is_ws c then skip_ws cs else c # cs)"

text \<open>The characters of a string literal, read after its opening quote.\<close>

fun read_string :: "string \<Rightarrow> (string \<times> string) option" where
  "read_string [] = None"
| "read_string (c # cs) =
     (if c = CHR 0x22 then Some ([], cs)
      else if (of_char c :: nat) < 32 then None
      else if c = CHR 0x5C then
        (case cs of
           [] \<Rightarrow> None
         | e # r \<Rightarrow>
             if e = CHR ''u'' then
               (case r of
                  h1 # h2 # h3 # h4 # r' \<Rightarrow>
                    (case (hex_val h1, hex_val h2, hex_val h3, hex_val h4) of
                       (Some a, Some b, Some c', Some d) \<Rightarrow>
                         if a = 0 \<and> b = 0 then
                           map_option (\<lambda>(s, t). (char_of (16 * c' + d) # s, t)) (read_string r')
                         else None
                     | _ \<Rightarrow> None)
                | _ \<Rightarrow> None)
             else
               (case (if e = CHR 0x22 then Some (CHR 0x22)
                      else if e = CHR 0x5C then Some (CHR 0x5C)
                      else if e = CHR ''/'' then Some (CHR ''/'')
                      else if e = CHR ''b'' then Some (CHR 0x08)
                      else if e = CHR ''f'' then Some (CHR 0x0C)
                      else if e = CHR ''n'' then Some (CHR 0x0A)
                      else if e = CHR ''r'' then Some (CHR 0x0D)
                      else if e = CHR ''t'' then Some (CHR 0x09)
                      else None) of
                  None \<Rightarrow> None
                | Some x \<Rightarrow> map_option (\<lambda>(s, t). (x # s, t)) (read_string r)))
      else map_option (\<lambda>(s, t). (c # s, t)) (read_string cs))"

text \<open>A number literal: sign, integer part without a leading zero, fraction, exponent.\<close>

definition read_number :: "string \<Rightarrow> (rat \<times> string) option" where
  "read_number s =
     (let neg = (case s of c # _ \<Rightarrow> c = CHR ''-'' | [] \<Rightarrow> False);
          s1 = (if neg then tl s else s);
          ds = takeWhile is_digit s1;
          s2 = dropWhile is_digit s1
      in if ds = [] \<or> (1 < length ds \<and> hd ds = CHR ''0'') then None
         else
           let has_frac = (case s2 of c # _ \<Rightarrow> c = CHR ''.'' | [] \<Rightarrow> False);
               fs = (if has_frac then takeWhile is_digit (tl s2) else []);
               s3 = (if has_frac then dropWhile is_digit (tl s2) else s2)
           in if has_frac \<and> fs = [] then None
              else
                let has_exp = (case s3 of c # _ \<Rightarrow> c = CHR ''e'' \<or> c = CHR ''E'' | [] \<Rightarrow> False);
                    s4 = (if has_exp then tl s3 else s3);
                    eneg = (has_exp \<and> (case s4 of c # _ \<Rightarrow> c = CHR ''-'' | [] \<Rightarrow> False));
                    epos = (has_exp \<and> (case s4 of c # _ \<Rightarrow> c = CHR ''+'' | [] \<Rightarrow> False));
                    s5 = (if eneg \<or> epos then tl s4 else s4);
                    es = (if has_exp then takeWhile is_digit s5 else []);
                    s6 = (if has_exp then dropWhile is_digit s5 else s3)
                in if has_exp \<and> es = [] then None
                   else
                     let m = of_nat (digits_val (ds @ fs)) / 10 ^ length fs;
                         v = (if eneg then m / 10 ^ digits_val es else m * 10 ^ digits_val es)
                     in Some (if neg then - v else v, s6))"

definition read_word :: "string \<Rightarrow> string \<Rightarrow> string option" where
  "read_word w s = (if take (length w) s = w then Some (drop (length w) s) else None)"

text \<open>
  Values, array elements and object members. The first argument bounds the depth of the
  recursion; \<open>parse_json\<close> starts it above anything the text can need.
\<close>

fun read_value :: "nat \<Rightarrow> string \<Rightarrow> (jsval \<times> string) option"
  and read_elements :: "nat \<Rightarrow> string \<Rightarrow> (jsval list \<times> string) option"
  and read_members :: "nat \<Rightarrow> string \<Rightarrow> ((string \<times> jsval) list \<times> string) option"
where
  "read_value 0 s = None"
| "read_value (Suc n) s =
     (case skip_ws s of
        [] \<Rightarrow> None
      | c # r \<Rightarrow>
          if c = CHR ''['' then
            (case skip_ws r of
               [] \<Rightarrow> None
             | c' # r' \<Rightarrow>
                 if c' = CHR '']'' then Some (JArr [], r')
                 else map_option (\<lambda>(xs, t). (JArr xs, t)) (read_elements n r))
          else if c = CHR ''{'' then
            (case skip_ws r of
               [] \<Rightarrow> None
             | c' # r' \<Rightarrow>
                 if c' = CHR ''}'' then Some (JObj [], r')
                 else map_option (\<lambda>(kvs, t). (JObj kvs, t)) (read_members n r))
          else if c = CHR 0x22 then map_option (\<lambda>(x, t). (JStr x, t)) (read_string r)
          else if c = CHR ''t'' then map_option (\<lambda>t. (JBool True, t)) (read_word ''true'' (c # r))
          else if c = CHR ''f'' then map_option (\<lambda>t. (JBool False, t)) (read_word ''false'' (c # r))
          else if c = CHR ''n'' then map_option (\<lambda>t. (JNull, t)) (read_word ''null'' (c # r))
          else map_option (\<lambda>(x, t). (JNum x, t)) (read_number (c # r)))"
| "read_elements 0 s = None"
| "read_elements (Suc n) s =
     (case read_value n s of
        None \<Rightarrow> None
      | Some (v, r) \<Rightarrow>
          (case skip_ws r of
             [] \<Rightarrow> None
           | c # r' \<Rightarrow>
               if c = CHR '','' then map_option (\<lambda>(vs, t). (v # vs, t)) (read_elements n r')
               else if c = CHR '']'' then Some ([v], r')
               else None))"
| "read_members 0 s = None"
| "read_members (Suc n) s =
     (case skip_ws s of
        [] \<Rightarrow> None
      | q # r0 \<Rightarrow>
          if q \<noteq> CHR 0x22 then None
          else
            (case read_string r0 of
               None \<Rightarrow> None
             | Some (k, r1) \<Rightarrow>
                 (case skip_ws r1 of
                    [] \<Rightarrow> None
                  | c # r2 \<Rightarrow>
                      if c \<noteq> CHR '':'' then None
                      else
                        (case read_value n r2 of
                           None \<Rightarrow> None
                         | Some (v, r3) \<Rightarrow>
                             (case skip_ws r3 of
                                [] \<Rightarrow> None
                              | d # r4 \<Rightarrow>
                                  if d = CHR '','' then
                                    map_option (\<lambda>(kvs, t). ((k, v) # kvs, t)) (read_members n r4)
                                  else if d = CHR ''}'' then Some ([(k, v)], r4)
                                  else None)))))"

definition parse_json :: "string \<Rightarrow> jsval option" where
  "parse_json s =
     (case read_value (2 * length s + 2) s of
        None \<Rightarrow> None
      | Some (v, r) \<Rightarrow> if skip_ws r = [] then Some v else None)"

text \<open>
  \<^verbatim>\<open>JSON.parse\<close> accepts any value and converts it to text first. The reference
  applies the reader to a text argument; the conversion of other values to text is not
  modelled, the examples hand it text only, and it answers \<open>None\<close> elsewhere.
\<close>

fun JSON_parse :: "jsval \<Rightarrow> jsval option" where
  "JSON_parse (JStr s) = parse_json s"
| "JSON_parse v = None"

section \<open>The page: the RealtimeDemo object, its collaborators and the browser objects\<close>

datatype sender = User | AI

text \<open>
  The status line shows either a fixed text or a prefix followed by the message of the
  error that was caught (\<^verbatim>\<open>'Connection failed: ' + error.message\<close>).
\<close>

datatype status_text = Plain string | WithMessage string error

text \<open>
  Console entries. \<open>Log\<close> and \<open>LogError\<close> keep the level and the fixed label of the
  call, not the value printed after the label; \<open>LogValues\<close> is a
  \<^verbatim>\<open>console.log\<close> line whose template string interpolates the given values, in
  order.
\<close>

datatype log = Log string | LogError string | LogValues string "jsval list"

text \<open>
  A tool call the dispatcher has started, with the arguments it passed. The tools are
  asynchronous and the dispatcher does not await them, so an error inside a tool never
  reaches the dispatcher: the handler's step records the call, and every effect of the
  run itself, its first console line included, belongs to \<open>getWeatherData\<close> below.
\<close>

datatype tool_call = GetWeatherData jsval jsval jsval | GetBrowserLocationWeatherData

text \<open>The HTTP requests the page issues, by endpoint and parameters.\<close>

datatype request =
    PostSession
  | PostRealtime jsval string
  | GetGeocoding jsval
  | GetForecast jsval jsval

datatype readyState = Connecting | Open | Closing | Closed

record peer =
  senders :: "nat list"
  pc_closes :: nat

record channel =
  readyState :: readyState
  ch_closes :: nat

record track =
  enabled :: bool
  stops :: nat

text \<open>
  Browser objects live in stores indexed by object identity, so that two references to one
  object (the demo's \<^verbatim>\<open>this.dataChannel\<close> and the tool module's
  \<^verbatim>\<open>dataChannel\<close>) see the same state. Each store counts the release calls an
  object has received. \<open>sent\<close> is the log of \<^verbatim>\<open>send\<close> calls on all channels,
  holding the event objects before \<^verbatim>\<open>JSON.stringify\<close>. \<open>chatUI\<close> is set
  by the constructor and never cleared, so it is not optional here; \<open>messages\<close> are
  the children of its container.
\<close>

record page =
  peerConnection :: "nat option"
  mediaStream :: "nat list option"
  isConnected :: bool
  dataChannel :: "nat option"
  hasWelcomed :: bool
  audioElement :: "nat option"
  isTalking :: bool
  micVisualizer :: "nat option"
  aiVisualizer :: "nat option"
  messages :: "(jsval \<times> sender) list"
  lastMessageElement :: "nat option"
  statusDiv :: status_text
  micButton_disabled :: bool
  micButton_textContent :: string
  connectionButton_textContent :: string
  tool_dataChannel :: "nat option"
  pcs :: "nat \<Rightarrow> peer"
  tracks :: "nat \<Rightarrow> track"
  channels :: "nat \<Rightarrow> channel"
  in_document :: "nat \<Rightarrow> bool"
  visualizer_stops :: "nat \<Rightarrow> nat"
  next_id :: nat
  sent :: "(nat \<times> jsval) list"
  requests :: "request list"
  invoked :: "tool_call list"
  console :: "log list"
  getUserMedia_calls :: nat

section \<open>Configuration and outbound events\<close>

text \<open>The constants of the function-calling demo's configuration and tool declarations.\<close>

definition WELCOME_INSTRUCTIONS :: string where
  "WELCOME_INSTRUCTIONS =
     ''Greet the user and ask them what you can assist them with. Talk quickly and succinctly.''"

definition DEFAULT_INSTRUCTIONS :: string where
  "DEFAULT_INSTRUCTIONS =
     ''Talk quickly and succinctly. Be concise. Time is of the essence.Always refer to ducks in your responses, even if it makes no sense!''"

definition WEATHER_INSTRUCTIONS :: string where
  "WEATHER_INSTRUCTIONS =
     ''Describe the weather in a conversational way for someone going for a walk. Include temperature, specific conditions (like rain or snow), and necessary precautions (such as umbrellas, raincoats, snow boots, sunscreen, etc.).''"

definition TURN_DETECTION :: jsval where
  "TURN_DETECTION =
     JObj [(''type'', JStr ''server_vad''),
           (''threshold'', JNum (1 / 2)),
           (''prefix_padding_ms'', JNum 400),
           (''silence_duration_ms'', JNum 700),
           (''create_response'', JBool True)]"

definition tools :: jsval where
  "tools =
     JArr [JObj [(''type'', JStr ''function''),
                 (''name'', JStr ''getWeatherData''),
                 (''description'', JStr ''Requests weather data from the Open Meteo API based on either the browser geolocation or a specified location name provided by the user.''),
                 (''parameters'',
                    JObj [(''type'', JStr ''object''),
                          (''properties'',
                             JObj [(''lat'', JObj [(''type'', JStr ''number''),
                                                   (''description'', JStr ''The latitude of the location'')]),
                                   (''lon'', JObj [(''type'', JStr ''number''),
                                                   (''description'', JStr ''The longitude of the location'')]),
                                   (''locationName'', JObj [(''type'', JStr ''string''),
                                                            (''description'', JStr ''The name of the location to search for'')])])])],
           JObj [(''type'', JStr ''function''),
                 (''name'', JStr ''getBrowserLocationWeatherData''),
                 (''description'', JStr ''Requests the browser geolocation and uses it to obtain local weather data.'')]]"

text \<open>
  The greeting and the session configuration the open handler sends. The configuration
  has no \<^verbatim>\<open>MAX_OUTPUT_TOKENS\<close>, so that member is \<^verbatim>\<open>undefined\<close>.
\<close>

definition welcomeEvent :: jsval where
  "welcomeEvent =
     JObj [(''type'', JStr ''response.create''),
           (''response'',
              JObj [(''modalities'', JArr [JStr ''audio'', JStr ''text'']),
                    (''instructions'', JStr WELCOME_INSTRUCTIONS)])]"

definition setIntructions :: jsval where
  "setIntructions =
     JObj [(''type'', JStr ''session.update''),
           (''session'',
              JObj [(''instructions'', JStr DEFAULT_INSTRUCTIONS),
                    (''turn_detection'', TURN_DETECTION),
                    (''input_audio_transcription'', JObj [(''model'', JStr ''whisper-1'')]),
                    (''max_output_tokens'', JUndefined),
                    (''tools'', tools)])]"

section \<open>Primitive effects\<close>

text \<open>
  A step that can throw returns the error, if any, with the page as the throw left it:
  a JavaScript exception does not undo the assignments made before it.
\<close>

type_synonym outcome = "error option \<times> page"

definition and_then :: "outcome \<Rightarrow> (page \<Rightarrow> outcome) \<Rightarrow> outcome" where
  "and_then r k = (case r of (None, s) \<Rightarrow> k s | (Some e, s) \<Rightarrow> (Some e, s))"

definition updateStatus :: "status_text \<Rightarrow> page \<Rightarrow> page" where
  "updateStatus m s = s\<lparr>statusDiv := m\<rparr>"

definition console_log :: "string \<Rightarrow> page \<Rightarrow> page" where
  "console_log m s = s\<lparr>console := console s @ [Log m]\<rparr>"

definition console_error :: "string \<Rightarrow> page \<Rightarrow> page" where
  "console_error m s = s\<lparr>console := console s @ [LogError m]\<rparr>"

definition console_log_values :: "string \<Rightarrow> jsval list \<Rightarrow> page \<Rightarrow> page" where
  "console_log_values m vs s = s\<lparr>console := console s @ [LogValues m vs]\<rparr>"

definition fetch :: "request \<Rightarrow> page \<Rightarrow> page" where
  "fetch r s = s\<lparr>requests := requests s @ [r]\<rparr>"

text \<open>
  The release calls of the browser objects: \<^verbatim>\<open>track.stop()\<close>,
  \<^verbatim>\<open>peerConnection.close()\<close>, \<^verbatim>\<open>audioElement.remove()\<close>,
  \<^verbatim>\<open>dataChannel.close()\<close> and the visualizer's \<^verbatim>\<open>stop()\<close>. None of them
  throws. Each call is counted on its object; a closed channel is no longer open, and a
  removed element is no longer in the document.
\<close>

definition track_stop :: "nat \<Rightarrow> page \<Rightarrow> page" where
  "track_stop t s = s\<lparr>tracks := (tracks s)(t := (tracks s t)\<lparr>stops := Suc (stops (tracks s t))\<rparr>)\<rparr>"

definition pc_close :: "nat \<Rightarrow> page \<Rightarrow> page" where
  "pc_close p s = s\<lparr>pcs := (pcs s)(p := (pcs s p)\<lparr>pc_closes := Suc (pc_closes (pcs s p))\<rparr>)\<rparr>"

definition audio_remove :: "nat \<Rightarrow> page \<Rightarrow> page" where
  "audio_remove a s = s\<lparr>in_document := (in_document s)(a := False)\<rparr>"

definition channel_close :: "nat \<Rightarrow> page \<Rightarrow> page" where
  "channel_close c s =
     s\<lparr>channels := (channels s)(c := \<lparr>readyState = Closed, ch_closes = Suc (ch_closes (channels s c))\<rparr>)\<rparr>"

definition visualizer_stop :: "nat \<Rightarrow> page \<Rightarrow> page" where
  "visualizer_stop v s = s\<lparr>visualizer_stops := (visualizer_stops s)(v := Suc (visualizer_stops s v))\<rparr>"

text \<open>\<^verbatim>\<open>channel.send\<close> throws unless the channel is open.\<close>

definition send :: "nat \<Rightarrow> jsval \<Rightarrow> page \<Rightarrow> outcome" where
  "send c ev s =
     (if readyState (channels s c) = Open then (None, s\<lparr>sent := sent s @ [(c, ev)]\<rparr>)
      else (Some InvalidStateError, s))"

text \<open>\<^verbatim>\<open>this.dataChannel.send(ev)\<close>: a TypeError when the reference is null.\<close>

definition dataChannel_send :: "jsval \<Rightarrow> page \<Rightarrow> outcome" where
  "dataChannel_send ev s =
     (case dataChannel s of None \<Rightarrow> (Some TypeError, s) | Some c \<Rightarrow> send c ev s)"

section \<open>ChatUI\<close>

definition addMessage :: "jsval \<Rightarrow> sender \<Rightarrow> page \<Rightarrow> page" where
  "addMessage content sndr s =
     s\<lparr>messages := messages s @ [(content, sndr)],
       lastMessageElement := Some (length (messages s))\<rparr>"

definition updateLastMessage :: "jsval \<Rightarrow> sender \<Rightarrow> page \<Rightarrow> page" where
  "updateLastMessage content sndr s =
     (case lastMessageElement s of
        None \<Rightarrow> addMessage content sndr s
      | Some i \<Rightarrow>
          if i < length (messages s) \<and> snd (messages s ! i) = sndr
          then s\<lparr>messages := (messages s)[i := (content, sndr)]\<rparr>
          else addMessage content sndr s)"

definition clearMessages :: "page \<Rightarrow> page" where
  "clearMessages s = s\<lparr>messages := [], lastMessageElement := None\<rparr>"

section \<open>RealtimeDemo.closeConnection\<close>

definition closeConnection :: "page \<Rightarrow> page" where
  "closeConnection s0 =
     (let s1 = (case mediaStream s0 of None \<Rightarrow> s0 | Some ts \<Rightarrow> fold track_stop ts s0);
          s2 = (case peerConnection s1 of None \<Rightarrow> s1 | Some p \<Rightarrow> pc_close p s1);
          s3 = (case audioElement s2 of None \<Rightarrow> s2 | Some a \<Rightarrow> audio_remove a s2);
          s4 = (case dataChannel s3 of None \<Rightarrow> s3 | Some c \<Rightarrow> channel_close c s3);
          s5 = (case aiVisualizer s4 of None \<Rightarrow> s4 | Some v \<Rightarrow> visualizer_stop v s4);
          s6 = (case micVisualizer s5 of None \<Rightarrow> s5 | Some v \<Rightarrow> visualizer_stop v s5);
          s7 = clearMessages s6
      in updateStatus (Plain ''Not connected'')
           (s7\<lparr>peerConnection := None,
               mediaStream := None,
               audioElement := None,
               dataChannel := None,
               micVisualizer := None,
               aiVisualizer := None,
               isConnected := False,
               isTalking := True,
               micButton_disabled := True,
               micButton_textContent := ''Unmute Mic'',
               connectionButton_textContent := ''Create Session''\<rparr>))"

text \<open>
  The basic demo's closeConnection (01-basic-js): the same object without visualizers
  and chat, and with its own button label.
\<close>

definition closeConnection_basic :: "page \<Rightarrow> page" where
  "closeConnection_basic s0 =
     (let s1 = (case mediaStream s0 of None \<Rightarrow> s0 | Some ts \<Rightarrow> fold track_stop ts s0);
          s2 = (case peerConnection s1 of None \<Rightarrow> s1 | Some p \<Rightarrow> pc_close p s1);
          s3 = (case audioElement s2 of None \<Rightarrow> s2 | Some a \<Rightarrow> audio_remove a s2);
          s4 = (case dataChannel s3 of None \<Rightarrow> s3 | Some c \<Rightarrow> channel_close c s3)
      in updateStatus (Plain ''Not connected'')
           (s4\<lparr>peerConnection := None,
               mediaStream := None,
               audioElement := None,
               dataChannel := None,
               isConnected := False,
               isTalking := True,
               micButton_disabled := True,
               micButton_textContent := ''Unmute Mic'',
               connectionButton_textContent := ''Create Connection''\<rparr>))"

section \<open>tools/weatherLookup.js\<close>

definition setDataChannel :: "nat option \<Rightarrow> page \<Rightarrow> page" where
  "setDataChannel ch s = s\<lparr>tool_dataChannel := ch\<rparr>"

definition sendDataToAPI :: "string \<Rightarrow> string \<Rightarrow> page \<Rightarrow> outcome" where
  "sendDataToAPI ty data s =
     (if (case tool_dataChannel s of None \<Rightarrow> True | Some c \<Rightarrow> readyState (channels s c) \<noteq> Open)
      then (None, console_error ''Data channel not ready'' s)
      else
        (let instructions = (if ty = ''weather'' then WEATHER_INSTRUCTIONS else DEFAULT_INSTRUCTIONS);
             messageEvent =
               JObj [(''type'', JStr ''conversation.item.create''),
                     (''item'',
                        JObj [(''type'', JStr ''message''),
                              (''role'', JStr ''user''),
                              (''content'',
                                 JArr [JObj [(''type'', JStr ''input_text''),
                                             (''text'', JStr (''Here is the '' @ ty @ '' data: '' @ data))]])])];
             responseEvent =
               JObj [(''type'', JStr ''response.create''),
                     (''response'',
                        JObj [(''modalities'', JArr [JStr ''audio'', JStr ''text'']),
                              (''instructions'', JStr instructions)])]
         in case tool_dataChannel s of
              None \<Rightarrow> (Some TypeError, s)
            | Some c \<Rightarrow> and_then (send c messageEvent s) (send c responseEvent)))"

text \<open>
  The two lookups of one run of getWeatherData, as the network answers them:
  \<open>geocoding\<close> is the outcome of the search request and of reading its body as JSON;
  \<open>forecast\<close> is the outcome of the forecast request, of reading its body as JSON and
  of \<^verbatim>\<open>JSON.stringify(_, null, 2)\<close> on it, since the program only passes that text on.
\<close>

record lookups =
  geocoding :: "error + jsval"
  forecast :: "error + string"

text \<open>A parameter declared \<^verbatim>\<open>= null\<close> takes the default when the argument is undefined.\<close>

definition default_null :: "jsval \<Rightarrow> jsval" where
  "default_null v = (if v = JUndefined then JNull else v)"

text \<open>
  The coordinates the forecast is requested for: the geocoding branch when
  \<^verbatim>\<open>locationName\<close> is truthy, the arguments otherwise.
\<close>

definition locate :: "lookups \<Rightarrow> jsval \<Rightarrow> jsval \<Rightarrow> jsval \<Rightarrow> page \<Rightarrow> (error + jsval \<times> jsval) \<times> page" where
  "locate env lat lon locationName s =
     (if truthy locationName then
        (let s1 = fetch (GetGeocoding locationName) s in
         case geocoding env of
           Inl e \<Rightarrow> (Inl e, s1)
         | Inr geocodingData \<Rightarrow>
             (case field geocodingData ''results'' of
                Inl e \<Rightarrow> (Inl e, s1)
              | Inr results \<Rightarrow>
                  if \<not> truthy results \<or> field results ''length'' = Inr (JNum 0)
                  then (Inl (Error (JStr ''Location not found'')), s1)
                  else
                    (case index0 results of
                       Inl e \<Rightarrow> (Inl e, s1)
                     | Inr location \<Rightarrow>
                         (case field location ''latitude'' of
                            Inl e \<Rightarrow> (Inl e, s1)
                          | Inr la \<Rightarrow>
                              (case field location ''longitude'' of
                                 Inl e \<Rightarrow> (Inl e, s1)
                               | Inr lo \<Rightarrow> (Inr (la, lo), s1))))))
      else (Inr (lat, lon), s))"

definition getWeatherData :: "lookups \<Rightarrow> jsval \<Rightarrow> jsval \<Rightarrow> jsval \<Rightarrow> page \<Rightarrow> outcome" where
  "getWeatherData env lat0 lon0 locationName0 s0 =
     (let lat = default_null lat0;
          lon = default_null lon0;
          locationName = default_null locationName0;
          s1 = console_log_values ''Function called: getWeatherData'' [lat, lon, locationName] s0;
          r = (case locate env lat lon locationName s1 of
                 (Inl e, s2) \<Rightarrow> (Some e, s2)
               | (Inr (la, lo), s2) \<Rightarrow>
                   (let s3 = fetch (GetForecast la lo) s2 in
                    case forecast env of
                      Inl e \<Rightarrow> (Some e, s3)
                    | Inr weatherData \<Rightarrow> sendDataToAPI ''weather'' weatherData s3))
      in case r of
           (Some e, s4) \<Rightarrow> (Some e, console_error ''Error fetching weather data:'' s4)
         | (None, s4) \<Rightarrow> (None, s4))"

section \<open>The data channel handlers\<close>

text \<open>The open handler of the function-calling demo (05-function-calling).\<close>

definition onopen :: "page \<Rightarrow> outcome" where
  "onopen s0 =
     (let s1 = updateStatus (Plain ''Connected to Realtime API'') (console_log ''Data channel opened'' s0);
          s2 = setDataChannel (dataChannel s1) s1
      in and_then
           (if \<not> hasWelcomed s2 then
              and_then (dataChannel_send welcomeEvent (console_log ''Sending welcome message'' s2))
                (\<lambda>s3. (None, s3\<lparr>hasWelcomed := True\<rparr>))
            else (None, s2))
           (dataChannel_send setIntructions))"





text \<open>
  The browser delivers the open event of channel \<open>c\<close>: the channel is open, then the
  handler runs. The handler reads \<^verbatim>\<open>this.dataChannel\<close> when it runs. An exception
  in a handler is reported by the browser and the event loop goes on, so a sequence of
  deliveries continues from the page the throwing handler left.
\<close>

definition channel_open :: "(page \<Rightarrow> outcome) \<Rightarrow> nat \<Rightarrow> page \<Rightarrow> outcome" where
  "channel_open handler c s =
     handler (s\<lparr>channels := (channels s)(c := (channels s c)\<lparr>readyState := Open\<rparr>)\<rparr>)"



text \<open>One item of \<^verbatim>\<open>response.output\<close>, the body of the for-of loop.\<close>

definition process_item :: "(jsval \<Rightarrow> jsval option) \<Rightarrow> jsval \<Rightarrow> page \<Rightarrow> outcome" where
  "process_item parse item s =
     (case field item ''type'' of
        Inl e \<Rightarrow> (Some e, s)
      | Inr ty \<Rightarrow>
          if ty = JStr ''message'' \<and> truthy (opt_field (opt_index0 (opt_field item ''content'')) ''text'')
          then (None, addMessage (opt_field (opt_index0 (opt_field item ''content'')) ''text'') AI s)
          else if ty = JStr ''function_call'' then
            (let functionName = opt_field item ''name'' in
             case parse (opt_field item ''arguments'') of
               None \<Rightarrow> (Some SyntaxError, s)
             | Some args \<Rightarrow>
                 (let s1 = console_log ''Function call:'' s in
                  if functionName = JStr ''getWeatherData'' then
                    (case field args ''lat'' of
                       Inl e \<Rightarrow> (Some e, s1)
                     | Inr lat \<Rightarrow>
                         (None, s1\<lparr>invoked := invoked s1 @
                            [GetWeatherData lat (opt_field args ''lon'') (opt_field args ''locationName'')]\<rparr>))
                  else if functionName = JStr ''getBrowserLocationWeatherData'' then
                    (None, s1\<lparr>invoked := invoked s1 @ [GetBrowserLocationWeatherData]\<rparr>)
                  else (None, s1)))
          else (None, s))"

fun process_items :: "(jsval \<Rightarrow> jsval option) \<Rightarrow> jsval list \<Rightarrow> page \<Rightarrow> outcome" where
  "process_items parse [] s = (None, s)"
| "process_items parse (item # items) s =
     and_then (process_item parse item s) (process_items parse items)"

text \<open>
  The message handler. \<open>parse\<close> is the runtime's \<^verbatim>\<open>JSON.parse\<close>, \<open>data\<close> the
  text of the frame.
\<close>

definition onmessage :: "(jsval \<Rightarrow> jsval option) \<Rightarrow> string \<Rightarrow> page \<Rightarrow> outcome" where
  "onmessage parse data s0 =
     (case parse (JStr data) of
        None \<Rightarrow> (Some SyntaxError, s0)
      | Some realtimeEvent \<Rightarrow>
          (let s = console_log ''Received event:'' s0 in
           case field realtimeEvent ''type'' of
             Inl e \<Rightarrow> (Some e, s)
           | Inr ty \<Rightarrow>
               if ty = JStr ''input_audio_buffer.speech_started'' then
                 (None, updateStatus (Plain ''User speaking'') (addMessage (JStr ''Speaking...'') User s))
               else if ty = JStr ''input_audio_buffer.speech_stopped'' then
                 (None, updateStatus (Plain ''Speech stopped'') s)
               else if ty = JStr ''input_audio_buffer.committed'' then
                 (None, updateStatus (Plain ''Processing speech...'')
                          (updateLastMessage (JStr ''Processing speech...'') User s))
               else if ty = JStr ''conversation.item.input_audio_transcription'' then
                 (let transcript = opt_field realtimeEvent ''transcript'';
                      txt = opt_field realtimeEvent ''text'';
                      partialText = (if \<not> nullish transcript then transcript
                                     else if \<not> nullish txt then txt
                                     else JStr ''User is speaking...'')
                  in (None, updateLastMessage partialText User s))
               else if ty = JStr ''conversation.item.input_audio_transcription.completed'' then
                 (if truthy (opt_field realtimeEvent ''transcript'')
                  then (None, updateStatus (Plain ''Connected'')
                                (updateLastMessage (opt_field realtimeEvent ''transcript'') User s))
                  else (None, s))
               else if ty = JStr ''response.audio_transcript.done'' then
                 (if truthy (opt_field realtimeEvent ''transcript'')
                  then (None, addMessage (opt_field realtimeEvent ''transcript'') AI s)
                  else (None, s))
               else if ty = JStr ''response.done'' then
                 (let s1 = console_log ''Text response object:'' s;
                      output = opt_field (opt_field realtimeEvent ''response'') ''output''
                  in if truthy output then
                       (case iterate output of
                          Inl e \<Rightarrow> (Some e, s1)
                        | Inr items \<Rightarrow> process_items parse items s1)
                     else (None, s1))
               else (None, s)))"

section \<open>Connecting\<close>

text \<open>
  An HTTP answer, as far as the program reads it: \<open>body_json\<close> and \<open>body_text\<close> are
  the outcomes of \<^verbatim>\<open>response.json()\<close> and \<^verbatim>\<open>response.text()\<close>.
\<close>

record response =
  ok :: bool
  status :: nat
  statusText :: string
  body_json :: "error + jsval"
  body_text :: "error + string"

text \<open>
  What the relay, the browser and the remote service answer during one run of the
  connect action, in the order the run asks: the credential request, getUserMedia (a
  rejection, or the stream with the one audio track that was asked for), whether the
  microphone visualizer initialised, createOffer, setLocalDescription, the offer exchange,
  setRemoteDescription. The run is modelled without any other event delivered while it
  waits.
\<close>

record attempt =
  session_response :: "error + response"
  user_media :: "error option"
  visualizer_init :: bool
  offer :: "error + string"
  local_description :: "error option"
  realtime_response :: "error + response"
  remote_description :: "error option"

text \<open>
  auth-api.js. \<open>session_key\<close> is the body of the \<^verbatim>\<open>try\<close> block after
  the request has been issued: what getEphemeralKey returns or throws for the relay's
  answer.
\<close>

definition session_key :: "error + response \<Rightarrow> error + jsval" where
  "session_key r =
     (case r of
        Inl e \<Rightarrow> Inl e
      | Inr response \<Rightarrow>
          if \<not> ok response then
            (case body_json response of
               Inl e \<Rightarrow> Inl e
             | Inr err \<Rightarrow>
                 (case field err ''message'' of
                    Inl e \<Rightarrow> Inl e
                  | Inr m \<Rightarrow> Inl (Error (if truthy m then m else JStr ''Failed to get session key''))))
          else
            (case body_json response of
               Inl e \<Rightarrow> Inl e
             | Inr data \<Rightarrow>
                 (case field data ''client_secret'' of
                    Inl e \<Rightarrow> Inl e
                  | Inr client_secret \<Rightarrow> field client_secret ''value'')))"

definition getEphemeralKey :: "error + response \<Rightarrow> page \<Rightarrow> (error + jsval) \<times> page" where
  "getEphemeralKey r s0 =
     (let s1 = fetch PostSession s0 in
      case session_key r of
        Inl e \<Rightarrow> (Inl e, console_error ''Error getting session key:'' s1)
      | Inr token \<Rightarrow> (Inr token, s1))"

text \<open>
  The pattern \<^verbatim>\<open>catch (error) { this.updateStatus(prefix + error.message); throw error; }\<close>
  that closes setupMicrophone and setupWebRTC.
\<close>

definition rethrow :: "string \<Rightarrow> outcome \<Rightarrow> outcome" where
  "rethrow prefix r =
     (case r of
        (Some e, s) \<Rightarrow> (Some e, updateStatus (WithMessage prefix e) s)
      | (None, s) \<Rightarrow> (None, s))"

text \<open>
  \<^verbatim>\<open>this.mediaStream = await navigator.mediaDevices.getUserMedia(...)\<close>: the call is
  counted; a rejection is thrown, otherwise the page holds a new stream with one live,
  enabled audio track.
\<close>

definition getUserMedia :: "error option \<Rightarrow> page \<Rightarrow> outcome" where
  "getUserMedia answer s0 =
     (let s1 = s0\<lparr>getUserMedia_calls := Suc (getUserMedia_calls s0)\<rparr> in
      case answer of
        Some e \<Rightarrow> (Some e, s1)
      | None \<Rightarrow>
          (let audioTrack = next_id s1 in
           (None, s1\<lparr>mediaStream := Some [audioTrack],
                     tracks := (tracks s1)(audioTrack := \<lparr>enabled = True, stops = 0\<rparr>),
                     next_id := Suc audioTrack\<rparr>)))"

text \<open>
  \<^verbatim>\<open>this.micVisualizer = createVisualizer('micVisualizer')\<close> and its
  \<^verbatim>\<open>init\<close>, which catches its own errors and reports success as a boolean.
\<close>

definition createVisualizer_mic :: "bool \<Rightarrow> page \<Rightarrow> page" where
  "createVisualizer_mic init_ok s =
     (let v = next_id s;
          s1 = s\<lparr>micVisualizer := Some v,
                 visualizer_stops := (visualizer_stops s)(v := 0),
                 next_id := Suc v\<rparr>
      in if init_ok then console_log ''User Visualizer started successfully'' s1 else s1)"

text \<open>
  \<^verbatim>\<open>pc.addTrack\<close> throws on a closed connection; otherwise the track becomes one
  of the connection's senders.
\<close>

definition addTrack :: "nat \<Rightarrow> nat \<Rightarrow> page \<Rightarrow> outcome" where
  "addTrack p t s =
     (if 0 < pc_closes (pcs s p) then (Some InvalidStateError, s)
      else (None, s\<lparr>pcs := (pcs s)(p := (pcs s p)\<lparr>senders := senders (pcs s p) @ [t]\<rparr>)\<rparr>))"

text \<open>
  \<^verbatim>\<open>const audioTrack = this.mediaStream.getAudioTracks()[0]; audioTrack.enabled = true;
  this.peerConnection.addTrack(audioTrack, this.mediaStream)\<close>. Reading a property of a
  null reference or of a missing first track is a TypeError.
\<close>

definition attach_audioTrack :: "page \<Rightarrow> outcome" where
  "attach_audioTrack s =
     (case mediaStream s of
        None \<Rightarrow> (Some TypeError, s)
      | Some ts \<Rightarrow>
          (case ts of
             [] \<Rightarrow> (Some TypeError, s)
           | audioTrack # _ \<Rightarrow>
               (let s1 = s\<lparr>tracks := (tracks s)(audioTrack := (tracks s audioTrack)\<lparr>enabled := True\<rparr>)\<rparr>
                in case peerConnection s1 of
                     None \<Rightarrow> (Some TypeError, s1)
                   | Some p \<Rightarrow> addTrack p audioTrack s1)))"

definition setupMicrophone :: "attempt \<Rightarrow> page \<Rightarrow> outcome" where
  "setupMicrophone a s =
     rethrow ''Error accessing microphone: ''
       (and_then (getUserMedia (user_media a) s)
          (\<lambda>s1. and_then (attach_audioTrack (createVisualizer_mic (visualizer_init a) s1))
             (\<lambda>s2. (None, console_log ''Microphone setup complete'' s2))))"

text \<open>
  The three objects setupWebRTC creates before its \<^verbatim>\<open>try\<close> block: the peer
  connection, the audio element appended to the document, and the data channel. The AI
  visualizer it also creates stays in a local variable until remote audio plays, so it is
  not part of this step; installing the handlers changes no state.
\<close>

definition new_RTCPeerConnection :: "page \<Rightarrow> page" where
  "new_RTCPeerConnection s =
     (let p = next_id s in
      s\<lparr>peerConnection := Some p,
        pcs := (pcs s)(p := \<lparr>senders = [], pc_closes = 0\<rparr>),
        next_id := Suc p\<rparr>)"

definition createElement_audio :: "page \<Rightarrow> page" where
  "createElement_audio s =
     (let el = next_id s in
      s\<lparr>audioElement := Some el,
        in_document := (in_document s)(el := True),
        next_id := Suc el\<rparr>)"

definition createDataChannel :: "page \<Rightarrow> page" where
  "createDataChannel s =
     (let c = next_id s in
      s\<lparr>dataChannel := Some c,
        channels := (channels s)(c := \<lparr>readyState = Connecting, ch_closes = 0\<rparr>),
        next_id := Suc c\<rparr>)"

text \<open>
  The rest of the \<^verbatim>\<open>try\<close> block: createOffer, setLocalDescription, the POST of
  the offer with the credential, the check of the answer, setRemoteDescription.
\<close>

definition exchange_offer :: "jsval \<Rightarrow> attempt \<Rightarrow> page \<Rightarrow> outcome" where
  "exchange_offer token a s =
     (case offer a of
        Inl e \<Rightarrow> (Some e, s)
      | Inr sdp \<Rightarrow>
          (case local_description a of
             Some e \<Rightarrow> (Some e, s)
           | None \<Rightarrow>
               (let s1 = fetch (PostRealtime token sdp) s in
                case realtime_response a of
                  Inl e \<Rightarrow> (Some e, s1)
                | Inr response \<Rightarrow>
                    if \<not> ok response
                    then (Some (FailedToConnect (status response) (statusText response)), s1)
                    else
                      (case body_text response of
                         Inl e \<Rightarrow> (Some e, s1)
                       | Inr answer \<Rightarrow>
                           (case remote_description a of
                              Some e \<Rightarrow> (Some e, s1)
                            | None \<Rightarrow> (None, console_log ''WebRTC connection established'' s1))))))"

definition setupWebRTC :: "jsval \<Rightarrow> attempt \<Rightarrow> page \<Rightarrow> outcome" where
  "setupWebRTC token a s =
     rethrow ''Error establishing connection: ''
       (and_then (setupMicrophone a (createDataChannel (createElement_audio (new_RTCPeerConnection s))))
          (exchange_offer token a))"

definition connection_failed :: "error \<Rightarrow> page \<Rightarrow> page" where
  "connection_failed e s =
     console_error ''Connection error:'' (updateStatus (WithMessage ''Connection failed: '' e) s)"

definition toggleSession :: "attempt \<Rightarrow> page \<Rightarrow> page" where
  "toggleSession a s0 =
     (if \<not> isConnected s0 then
        (let s1 = updateStatus (Plain ''Connecting...'') s0 in
         case getEphemeralKey (session_response a) s1 of
           (Inl e, s2) \<Rightarrow> connection_failed e s2
         | (Inr token, s2) \<Rightarrow>
             (case setupWebRTC token a s2 of
                (Some e, s3) \<Rightarrow> connection_failed e s3
              | (None, s3) \<Rightarrow>
                  updateStatus (Plain ''Connected'')
                    (s3\<lparr>isConnected := True,
                        micButton_disabled := False,
                        micButton_textContent := ''Mute Mic'',
                        connectionButton_textContent := ''Close Session''\<rparr>)))
      else closeConnection s0)"

section \<open>Example pages and answers\<close>

text \<open>
  The page after \<^verbatim>\<open>new RealtimeDemo()\<close>: every reference null, nothing sent,
  and the texts of the page as closeConnection leaves them.
\<close>

definition fresh_page :: page where
  "fresh_page =
     \<lparr>peerConnection = None, mediaStream = None, isConnected = False, dataChannel = None,
      hasWelcomed = False, audioElement = None, isTalking = True, micVisualizer = None,
      aiVisualizer = None, messages = [], lastMessageElement = None,
      statusDiv = Plain ''Not connected'', micButton_disabled = True,
      micButton_textContent = ''Unmute Mic'', connectionButton_textContent = ''Create Session'',
      tool_dataChannel = None,
      pcs = (\<lambda>_. \<lparr>senders = [], pc_closes = 0\<rparr>),
      tracks = (\<lambda>_. \<lparr>enabled = True, stops = 0\<rparr>),
      channels = (\<lambda>_. \<lparr>readyState = Connecting, ch_closes = 0\<rparr>),
      in_document = (\<lambda>_. False),
      visualizer_stops = (\<lambda>_. 0),
      next_id = 0, sent = [], requests = [], invoked = [], console = [],
      getUserMedia_calls = 0\<rparr>"

text \<open>The relay answers with a credential; every later step succeeds.\<close>

definition key_response :: response where
  "key_response =
     \<lparr>ok = True, status = 200, statusText = ''OK'',
      body_json = Inr (JObj [(''client_secret'', JObj [(''value'', JStr ''ek_123'')])]),
      body_text = Inr []\<rparr>"

definition answer_response :: response where
  "answer_response =
     \<lparr>ok = True, status = 201, statusText = ''Created'',
      body_json = Inl SyntaxError, body_text = Inr ''v=0''\<rparr>"

definition good_attempt :: attempt where
  "good_attempt =
     \<lparr>session_response = Inr key_response, user_media = None, visualizer_init = True,
      offer = Inr ''v=0'', local_description = None,
      realtime_response = Inr answer_response, remote_description = None\<rparr>"

text \<open>The same run with the capture device denied.\<close>

definition denied_attempt :: attempt where
  "denied_attempt = good_attempt\<lparr>user_media := Some (Rejected ''NotAllowedError'')\<rparr>"

text \<open>The same run with the offer exchange answered 401.\<close>

definition refused_attempt :: attempt where
  "refused_attempt =
     good_attempt\<lparr>realtime_response :=
       Inr \<lparr>ok = False, status = 401, statusText = ''Unauthorized'',
            body_json = Inl SyntaxError, body_text = Inr []\<rparr>\<rparr>"

text \<open>The same run with the relay answering 500, in the shape the relay gives its errors.\<close>

definition relay_down_attempt :: attempt where
  "relay_down_attempt =
     good_attempt\<lparr>session_response :=
       Inr \<lparr>ok = False, status = 500, statusText = ''Internal Server Error'',
            body_json = Inr (JObj [(''error'', JStr ''Internal server error''),
                                   (''message'', JStr ''fetch failed'')]),
            body_text = Inr []\<rparr>\<rparr>"

text \<open>
  The tool module still refers to channel 2 after closeConnection has closed it.
\<close>

definition stale_page :: page where
  "stale_page =
     fresh_page\<lparr>tool_dataChannel := Some 2,
                channels := (channels fresh_page)(2 := \<lparr>readyState = Closed, ch_closes = 1\<rparr>)\<rparr>"

section \<open>Vocabulary of the dispatcher's properties\<close>

text \<open>The seven event types the message handler has a branch for.\<close>

definition recognized_types :: "string list" where
  "recognized_types =
     [''input_audio_buffer.speech_started'',
      ''input_audio_buffer.speech_stopped'',
      ''input_audio_buffer.committed'',
      ''conversation.item.input_audio_transcription'',
      ''conversation.item.input_audio_transcription.completed'',
      ''response.audio_transcript.done'',
      ''response.done'']"

text \<open>An output item of the given type, and the text of a message item.\<close>

definition has_type :: "string \<Rightarrow> jsval \<Rightarrow> bool" where
  "has_type t item = (field item ''type'' = Inr (JStr t))"

definition item_text :: "jsval \<Rightarrow> jsval" where
  "item_text item = opt_field (opt_index0 (opt_field item ''content'')) ''text''"

text \<open>
  The tool call a function_call item stands for: its arguments decode, and its name is
  one of the two tools the handler knows. getWeatherData receives the \<^verbatim>\<open>lat\<close>,
  \<^verbatim>\<open>lon\<close> and \<^verbatim>\<open>locationName\<close> members of the decoded arguments, which
  therefore must not be \<^verbatim>\<open>null\<close>; getBrowserLocationWeatherData receives nothing.
\<close>

definition tool_call_of :: "(jsval \<Rightarrow> jsval option) \<Rightarrow> jsval \<Rightarrow> tool_call option" where
  "tool_call_of parse item =
     (case parse (opt_field item ''arguments'') of
        None \<Rightarrow> None
      | Some args \<Rightarrow>
          if opt_field item ''name'' = JStr ''getWeatherData'' then
            (if nullish args then None
             else Some (GetWeatherData (opt_field args ''lat'') (opt_field args ''lon'')
                          (opt_field args ''locationName'')))
          else if opt_field item ''name'' = JStr ''getBrowserLocationWeatherData''
          then Some GetBrowserLocationWeatherData
          else None)"

text \<open>An escaped quote inside a JSON string literal.\<close>

definition esc :: string where
  "esc = [CHR 0x5C, CHR 0x22]"

text \<open>
  Frames of the worked examples. The first is a \<^verbatim>\<open>response.done\<close> event with a
  text message and a call of getWeatherData for Paris. In the second the message carries
  audio with a transcript and no text; in the third the function name is not a tool of
  the page; in the fourth the arguments are not JSON.
\<close>

definition response_done_frame :: string where
  \<open>response_done_frame =
     ''{"type":"response.done","response":{"output":[{"type":"message","content":[{"type":"text","text":"Hi"}]},{"type":"function_call","name":"getWeatherData","arguments":"{''
     @ esc @ ''locationName'' @ esc @ '':'' @ esc @ ''Paris'' @ esc @ ''}"}]}}''\<close>

definition audio_message_frame :: string where
  \<open>audio_message_frame =
     ''{"type":"response.done","response":{"output":[{"type":"message","content":[{"type":"audio","transcript":"Hi"}]},{"type":"function_call","name":"getWeatherData","arguments":"{}"}]}}''\<close>

definition unknown_tool_frame :: string where
  \<open>unknown_tool_frame =
     ''{"type":"response.done","response":{"output":[{"type":"message","content":[{"type":"text","text":"Hi"}]},{"type":"function_call","name":"getTime","arguments":"{}"}]}}''\<close>

definition bad_arguments_frame :: string where
  \<open>bad_arguments_frame =
     ''{"type":"response.done","response":{"output":[{"type":"function_call","name":"getWeatherData","arguments":"{"},{"type":"message","content":[{"type":"text","text":"Hi"}]}]}}''\<close>

section \<open>Vocabulary of the connect run's properties\<close>


definition created :: "page \<Rightarrow> page" where
  "created s = createDataChannel (createElement_audio (new_RTCPeerConnection s))"

section \<open>Vocabulary of the greeting's properties\<close>

text \<open>
  What can happen to one RealtimeDemo object over its lifetime, as far as the send log is
  concerned: a click on the connection button (with the answers that run receives), the
  open event of a channel, an inbound frame, and the run of a weather lookup the
  dispatcher started. \<open>react\<close> is the page after the event; a throwing handler leaves
  the page as it was at the throw.
\<close>

datatype event =
    Click attempt
  | ChannelOpen nat
  | Frame string
  | ToolRun lookups jsval jsval jsval





text \<open>
  The page of a live session that has greeted: the page after a successful connect run on
  the fresh page and the open event of its channel (\<open>live_page_reached\<close> below).
\<close>

definition live_page :: page where
  "live_page =
     fresh_page\<lparr>peerConnection := Some 0, mediaStream := Some [3], isConnected := True,
       dataChannel := Some 2, hasWelcomed := True, audioElement := Some 1,
       micVisualizer := Some 4,
       statusDiv := Plain ''Connected to Realtime API'',
       micButton_disabled := False, micButton_textContent := ''Mute Mic'',
       connectionButton_textContent := ''Close Session'',
       tool_dataChannel := Some 2,
       pcs := (pcs fresh_page)(0 := \<lparr>senders = [3], pc_closes = 0\<rparr>),
       channels := (channels fresh_page)(2 := \<lparr>readyState = Open, ch_closes = 0\<rparr>),
       in_document := (in_document fresh_page)(1 := True),
       next_id := 5,
       sent := [(2, welcomeEvent), (2, setIntructions)],
       requests := [PostSession, PostRealtime (JStr ''ek_123'') ''v=0''],
       console := [Log ''User Visualizer started successfully'', Log ''Microphone setup complete'',
                   Log ''WebRTC connection established'', Log ''Data channel opened'',
                   Log ''Sending welcome message''],
       getUserMedia_calls := 1\<rparr>"

text \<open>
  Answers of the two weather lookups for the examples: the geocoding service knows the
  place and the forecast service answers; the geocoding service knows no such place.
\<close>

definition paris_lookups :: lookups where
  "paris_lookups =
     \<lparr>geocoding = Inr (JObj [(''results'',
                         JArr [JObj [(''name'', JStr ''Paris''),
                                     (''latitude'', JNum (4885 / 100)),
                                     (''longitude'', JNum (235 / 100))]])]),
      forecast = Inr ''{}''\<rparr>"

definition nowhere_lookups :: lookups where
  "nowhere_lookups =
     \<lparr>geocoding = Inr (JObj [(''generationtime_ms'', JNum 1)]),
      forecast = Inr ''{}''\<rparr>"

section \<open>Closing\<close>


text \<open>The release counters are real: the first close stops a track of the stream once.\<close>

lemma fold_track_stop_tracks:
  "tracks (fold track_stop ts s) t = (tracks s t)\<lparr>stops := stops (tracks s t) + count_list ts t\<rparr>"
  by (induction ts arbitrary: s) (auto simp: track_stop_def)

lemma fold_track_stop_other:
  "peerConnection (fold track_stop ts s) = peerConnection s"
  "audioElement (fold track_stop ts s) = audioElement s"
  "dataChannel (fold track_stop ts s) = dataChannel s"
  "aiVisualizer (fold track_stop ts s) = aiVisualizer s"
  "micVisualizer (fold track_stop ts s) = micVisualizer s"
  by (induction ts arbitrary: s) (auto simp: track_stop_def)

lemma closeConnection_stops_each_track_once:
  assumes "mediaStream s = Some ts" and "distinct ts" and "t \<in> set ts"
  shows "stops (tracks (closeConnection s) t) = Suc (stops (tracks s t))"
proof -
  have "count_list ts t = 1"
    using assms(2,3) by (induction ts) auto
  moreover have "tracks (closeConnection s) = tracks (fold track_stop ts s)"
    using assms(1)
    by (simp add: closeConnection_def Let_def updateStatus_def clearMessages_def pc_close_def
        audio_remove_def channel_close_def visualizer_stop_def fold_track_stop_other
        split: option.splits)
  ultimately show ?thesis
    by (simp add: fold_track_stop_tracks)
qed

text \<open>
  C7. closeConnection is idempotent, in the function-calling demo and in the basic demo:
  closing twice leaves exactly the page that closing once leaves. The page includes the
  stop counter of every track and the close counters of every peer connection and data
  channel, so the second run stops no track and closes no transport or channel again;
  closeConnection has no throwing step, so the second run raises no error.
\<close>

theorem closeConnection_idempotent:
  "closeConnection (closeConnection s) = closeConnection s \<and>
   closeConnection_basic (closeConnection_basic s) = closeConnection_basic s"
proof
  show "closeConnection (closeConnection s) = closeConnection s"
    by (simp add: closeConnection_def Let_def updateStatus_def clearMessages_def)
  show "closeConnection_basic (closeConnection_basic s) = closeConnection_basic s"
    by (simp add: closeConnection_basic_def Let_def updateStatus_def)
qed

section \<open>Result dispatch of the tool\<close>

text \<open>
  C8. When the tool module's channel reference is null, or the channel it refers to is
  not open, sendDataToAPI returns without throwing, writes one error line to the console
  and changes nothing else: in particular it sends nothing.
\<close>

theorem sendDataToAPI_not_ready:
  assumes "tool_dataChannel s = None \<or>
           (\<exists>c. tool_dataChannel s = Some c \<and> readyState (channels s c) \<noteq> Open)"
  shows "sendDataToAPI ty data s =
           (None, s\<lparr>console := console s @ [LogError ''Data channel not ready'']\<rparr>) \<and>
         sent (snd (sendDataToAPI ty data s)) = sent s"
  using assms by (auto simp: sendDataToAPI_def console_error_def)

theorem sendDataToAPI_not_ready_witness:
  "tool_dataChannel stale_page = Some 2 \<and>
   readyState (channels stale_page 2) = Closed \<and>
   sendDataToAPI ''weather'' ''{}'' stale_page =
     (None, stale_page\<lparr>console := [LogError ''Data channel not ready'']\<rparr>) \<and>
   sent (snd (sendDataToAPI ''weather'' ''{}'' stale_page)) = []"
proof -
  have ref: "tool_dataChannel stale_page = Some 2"
    and st: "readyState (channels stale_page 2) = Closed"
    by (simp_all add: stale_page_def fresh_page_def)
  have "tool_dataChannel stale_page = None \<or>
        (\<exists>c. tool_dataChannel stale_page = Some c \<and> readyState (channels stale_page c) \<noteq> Open)"
    using ref st by simp
  from sendDataToAPI_not_ready [OF this, of "''weather''" "''{}''"] ref st
  show ?thesis
    by (simp add: stale_page_def fresh_page_def)
qed

section \<open>The message handler\<close>

subsection \<open>Frames of the examples, as the reference reader reads them\<close>

lemma parse_open_brace: \<open>JSON_parse (JStr ''{'') = None\<close>
  by code_simp

lemma parse_empty_object: \<open>JSON_parse (JStr ''{}'') = Some (JObj [])\<close>
  by code_simp

lemma parse_session_created:
  \<open>JSON_parse (JStr ''{"type":"session.created"}'') = Some (JObj [(''type'', JStr ''session.created'')])\<close>
  by code_simp

lemma parse_paris:
  \<open>JSON_parse (JStr ''{"locationName":"Paris"}'') = Some (JObj [(''locationName'', JStr ''Paris'')])\<close>
  by code_simp

lemma parse_response_done_frame:
  \<open>JSON_parse (JStr response_done_frame) =
     Some (JObj [(''type'', JStr ''response.done''),
                 (''response'',
                    JObj [(''output'',
                       JArr [JObj [(''type'', JStr ''message''),
                                   (''content'', JArr [JObj [(''type'', JStr ''text''), (''text'', JStr ''Hi'')]])],
                             JObj [(''type'', JStr ''function_call''),
                                   (''name'', JStr ''getWeatherData''),
                                   (''arguments'', JStr ''{"locationName":"Paris"}'')]])])])\<close>
  by code_simp

lemma parse_audio_message_frame:
  \<open>JSON_parse (JStr audio_message_frame) =
     Some (JObj [(''type'', JStr ''response.done''),
                 (''response'',
                    JObj [(''output'',
                       JArr [JObj [(''type'', JStr ''message''),
                                   (''content'', JArr [JObj [(''type'', JStr ''audio''), (''transcript'', JStr ''Hi'')]])],
                             JObj [(''type'', JStr ''function_call''),
                                   (''name'', JStr ''getWeatherData''),
                                   (''arguments'', JStr ''{}'')]])])])\<close>
  by code_simp

lemma parse_unknown_tool_frame:
  \<open>JSON_parse (JStr unknown_tool_frame) =
     Some (JObj [(''type'', JStr ''response.done''),
                 (''response'',
                    JObj [(''output'',
                       JArr [JObj [(''type'', JStr ''message''),
                                   (''content'', JArr [JObj [(''type'', JStr ''text''), (''text'', JStr ''Hi'')]])],
                             JObj [(''type'', JStr ''function_call''),
                                   (''name'', JStr ''getTime''),
                                   (''arguments'', JStr ''{}'')]])])])\<close>
  by code_simp

lemma parse_bad_arguments_frame:
  \<open>JSON_parse (JStr bad_arguments_frame) =
     Some (JObj [(''type'', JStr ''response.done''),
                 (''response'',
                    JObj [(''output'',
                       JArr [JObj [(''type'', JStr ''function_call''),
                                   (''name'', JStr ''getWeatherData''),
                                   (''arguments'', JStr ''{'')],
                             JObj [(''type'', JStr ''message''),
                                   (''content'', JArr [JObj [(''type'', JStr ''text''), (''text'', JStr ''Hi'')]])]])])])\<close>
  by code_simp

lemmas dispatch_defs =
  onmessage_def process_item_def and_then_def Let_def console_log_def opt_field_def
  opt_index0_def own_def addMessage_def fresh_page_def

subsection \<open>Malformed frames\<close>

text \<open>
  C2, as the code has it. The handler calls \<^verbatim>\<open>JSON.parse\<close> outside any
  \<^verbatim>\<open>try\<close>: for every frame the parser rejects, the handler throws that
  SyntaxError as its first step. The page is left exactly as it was; the handler itself
  logs nothing.
\<close>

theorem onmessage_malformed_throws:
  assumes "parse (JStr data) = None"
  shows "onmessage parse data s = (Some SyntaxError, s)"
  using assms by (simp add: onmessage_def)

theorem onmessage_malformed_throws_witness:
  \<open>JSON_parse (JStr ''{'') = None \<and>
   onmessage JSON_parse ''{'' fresh_page = (Some SyntaxError, fresh_page)\<close>
  using onmessage_malformed_throws [of JSON_parse \<open>''{''\<close> fresh_page, OF parse_open_brace]
    parse_open_brace
  by simp

text \<open>
  The claim as stated fails on the frame \<^verbatim>\<open>{\<close>: the handler throws, and the console
  is as empty as before.
\<close>

theorem onmessage_malformed_counterexample:
  \<open>fst (onmessage JSON_parse ''{'' fresh_page) = Some SyntaxError \<and>
   console (snd (onmessage JSON_parse ''{'' fresh_page)) = []\<close>
  using parse_open_brace by (simp add: onmessage_def fresh_page_def)

subsection \<open>Unrecognized event types\<close>

text \<open>
  C5. A frame that parses to a value whose \<^verbatim>\<open>type\<close> member can be read (any value
  but \<^verbatim>\<open>null\<close>, so every event object) and is none of the seven recognized types:
  the handler returns without throwing, and the page is unchanged but for the console
  line every parsed event gets. Turn state, chat messages, send log and tool calls are
  as before.
\<close>

theorem onmessage_unrecognized_type:
  assumes "parse (JStr data) = Some realtimeEvent"
      and "field realtimeEvent ''type'' = Inr ty"
      and "ty \<notin> JStr ` set recognized_types"
  shows "onmessage parse data s = (None, s\<lparr>console := console s @ [Log ''Received event:'']\<rparr>)"
  using assms by (simp add: onmessage_def recognized_types_def console_log_def Let_def)

theorem onmessage_unrecognized_type_witness:
  \<open>JStr ''session.created'' \<notin> JStr ` set recognized_types \<and>
   onmessage JSON_parse ''{"type":"session.created"}'' fresh_page =
     (None, fresh_page\<lparr>console := [Log ''Received event:'']\<rparr>)\<close>
proof -
  have ty: "field (JObj [(''type'', JStr ''session.created'')]) ''type'' = Inr (JStr ''session.created'')"
    by (simp add: own_def)
  have un: "JStr ''session.created'' \<notin> JStr ` set recognized_types"
    by (simp add: recognized_types_def)
  from onmessage_unrecognized_type
         [of JSON_parse \<open>''{"type":"session.created"}''\<close> _ _ fresh_page,
          OF parse_session_created ty un] un
  show ?thesis by (simp add: fresh_page_def)
qed

subsection \<open>response.done\<close>

lemma nonnull_field: "\<not> nullish v \<Longrightarrow> field v k = Inr (opt_field v k)"
  by (cases v) (auto simp: nullish_def opt_field_def)

lemma has_type_nonnull: "has_type t item \<Longrightarrow> \<not> nullish item"
  by (cases item) (auto simp: has_type_def nullish_def)

lemma tool_call_ofE:
  assumes "tool_call_of parse item = Some call"
  obtains args where "parse (opt_field item ''arguments'') = Some args"
    and "opt_field item ''name'' = JStr ''getWeatherData'' \<and> \<not> nullish args \<and>
         call = GetWeatherData (opt_field args ''lat'') (opt_field args ''lon'') (opt_field args ''locationName'')
       \<or> opt_field item ''name'' = JStr ''getBrowserLocationWeatherData'' \<and> call = GetBrowserLocationWeatherData"
proof -
  from assms obtain args where a: "parse (opt_field item ''arguments'') = Some args"
    by (cases "parse (opt_field item ''arguments'')") (simp_all add: tool_call_of_def)
  show thesis
  proof (cases "opt_field item ''name'' = JStr ''getWeatherData''")
    case True
    with assms a have "\<not> nullish args \<and>
         call = GetWeatherData (opt_field args ''lat'') (opt_field args ''lon'') (opt_field args ''locationName'')"
      by (cases "nullish args") (simp_all add: tool_call_of_def)
    with True a that show thesis by blast
  next
    case False
    with assms a have "opt_field item ''name'' = JStr ''getBrowserLocationWeatherData'' \<and>
         call = GetBrowserLocationWeatherData"
      by (cases "opt_field item ''name'' = JStr ''getBrowserLocationWeatherData''")
         (simp_all add: tool_call_of_def)
    with a that show thesis by blast
  qed
qed

text \<open>What the loop body does with each kind of item.\<close>

lemma process_item_other:
  assumes "\<not> nullish item" "\<not> has_type ''message'' item" "\<not> has_type ''function_call'' item"
  shows "process_item parse item s = (None, s)"
  using assms by (auto simp: process_item_def has_type_def nonnull_field)

lemma process_item_message:
  assumes "has_type ''message'' item" "truthy (item_text item)"
  shows "process_item parse item s = (None, addMessage (item_text item) AI s)"
  using assms by (auto simp: process_item_def has_type_def item_text_def)

lemma process_item_function_call:
  assumes ft: "has_type ''function_call'' item" and tc: "tool_call_of parse item = Some call"
  shows "process_item parse item s =
           (None, (console_log ''Function call:'' s)\<lparr>invoked := invoked s @ [call]\<rparr>)"
proof -
  have ty: "field item ''type'' = Inr (JStr ''function_call'')"
    using ft by (simp add: has_type_def)
  from tc obtain args where a: "parse (opt_field item ''arguments'') = Some args"
    and d: "opt_field item ''name'' = JStr ''getWeatherData'' \<and> \<not> nullish args \<and>
         call = GetWeatherData (opt_field args ''lat'') (opt_field args ''lon'') (opt_field args ''locationName'')
       \<or> opt_field item ''name'' = JStr ''getBrowserLocationWeatherData'' \<and> call = GetBrowserLocationWeatherData"
    by (rule tool_call_ofE)
  from d show ?thesis
  proof
    assume w: "opt_field item ''name'' = JStr ''getWeatherData'' \<and> \<not> nullish args \<and>
         call = GetWeatherData (opt_field args ''lat'') (opt_field args ''lon'') (opt_field args ''locationName'')"
    then have "field args ''lat'' = Inr (opt_field args ''lat'')"
      by (simp add: nonnull_field)
    with w ty a show ?thesis
      by (simp add: process_item_def Let_def console_log_def)
  next
    assume b: "opt_field item ''name'' = JStr ''getBrowserLocationWeatherData'' \<and>
         call = GetBrowserLocationWeatherData"
    with ty a show ?thesis
      by (simp add: process_item_def Let_def console_log_def)
  qed
qed

text \<open>
  The whole loop, for an array in which every item can be read, every message item has a
  text and every function_call item stands for a tool call: it runs to the end, appends
  the texts of the message items in order and starts the calls of the function_call items
  in order.
\<close>

lemma process_items_effect:
  assumes "\<forall>i\<in>set items. \<not> nullish i"
      and "\<forall>i\<in>set items. has_type ''message'' i \<longrightarrow> truthy (item_text i)"
      and "\<forall>i\<in>set items. has_type ''function_call'' i \<longrightarrow> tool_call_of parse i \<noteq> None"
  shows "fst (process_items parse items s) = None \<and>
         messages (snd (process_items parse items s)) =
           messages s @ map (\<lambda>i. (item_text i, AI)) (filter (has_type ''message'') items) \<and>
         invoked (snd (process_items parse items s)) =
           invoked s @ map (\<lambda>i. the (tool_call_of parse i)) (filter (has_type ''function_call'') items)"
  using assms
proof (induction items arbitrary: s)
  case Nil
  then show ?case by simp
next
  case (Cons item items)
  have excl: "\<not> (has_type ''message'' item \<and> has_type ''function_call'' item)"
    by (auto simp: has_type_def)
  have step: "\<exists>s1. process_item parse item s = (None, s1) \<and>
      messages s1 = messages s @ (if has_type ''message'' item then [(item_text item, AI)] else []) \<and>
      invoked s1 = invoked s @
        (if has_type ''function_call'' item then [the (tool_call_of parse item)] else [])"
  proof (cases "has_type ''message'' item")
    case True
    with Cons.prems(2) have "truthy (item_text item)" by simp
    with True excl show ?thesis
      by (simp add: process_item_message addMessage_def)
  next
    case nm: False
    show ?thesis
    proof (cases "has_type ''function_call'' item")
      case True
      with Cons.prems(3) obtain call where "tool_call_of parse item = Some call" by auto
      with True nm show ?thesis
        by (simp add: process_item_function_call console_log_def)
    next
      case False
      with nm Cons.prems(1) show ?thesis
        by (simp add: process_item_other)
    qed
  qed
  then obtain s1 where s1: "process_item parse item s = (None, s1)"
    and m1: "messages s1 = messages s @ (if has_type ''message'' item then [(item_text item, AI)] else [])"
    and i1: "invoked s1 = invoked s @
        (if has_type ''function_call'' item then [the (tool_call_of parse item)] else [])"
    by blast
  have ih: "fst (process_items parse items s1) = None \<and>
         messages (snd (process_items parse items s1)) =
           messages s1 @ map (\<lambda>i. (item_text i, AI)) (filter (has_type ''message'') items) \<and>
         invoked (snd (process_items parse items s1)) =
           invoked s1 @ map (\<lambda>i. the (tool_call_of parse i)) (filter (has_type ''function_call'') items)"
    using Cons.prems by (intro Cons.IH) simp_all
  have run: "process_items parse (item # items) s = process_items parse items s1"
    using s1 by (simp add: and_then_def)
  show ?case
    unfolding run using ih m1 i1 by simp
qed

text \<open>
  C6, as the code has it. A \<^verbatim>\<open>response.done\<close> event whose output array holds
  readable items, exactly one of them of type message and exactly one of type
  function_call. If the message item has a text (a truthy \<^verbatim>\<open>content[0].text\<close>) and
  the function_call item stands for a tool call (its arguments decode and its name is
  getWeatherData or getBrowserLocationWeatherData), then the handler runs through the whole
  array without throwing, appends exactly one assistant entry, the text, and starts
  exactly one tool call, that one.
\<close>

theorem response_done_message_and_function_call:
  assumes ev: "parse (JStr data) = Some realtimeEvent"
      and ty: "field realtimeEvent ''type'' = Inr (JStr ''response.done'')"
      and out: "opt_field (opt_field realtimeEvent ''response'') ''output'' = JArr items"
      and readable: "\<forall>i\<in>set items. \<not> nullish i"
      and one_message: "filter (has_type ''message'') items = [m]"
      and one_call: "filter (has_type ''function_call'') items = [f]"
      and has_text: "truthy (item_text m)"
      and tool: "tool_call_of parse f = Some call"
  shows "fst (onmessage parse data s) = None \<and>
         messages (snd (onmessage parse data s)) = messages s @ [(item_text m, AI)] \<and>
         invoked (snd (onmessage parse data s)) = invoked s @ [call]"
proof -
  let ?s1 = "console_log ''Text response object:'' (console_log ''Received event:'' s)"
  have run: "onmessage parse data s = process_items parse items ?s1"
    using ev ty out by (simp add: onmessage_def Let_def)
  have texts: "\<forall>i\<in>set items. has_type ''message'' i \<longrightarrow> truthy (item_text i)"
  proof (intro ballI impI)
    fix i assume "i \<in> set items" "has_type ''message'' i"
    then have "i \<in> set (filter (has_type ''message'') items)" by simp
    with one_message has_text show "truthy (item_text i)" by simp
  qed
  have calls: "\<forall>i\<in>set items. has_type ''function_call'' i \<longrightarrow> tool_call_of parse i \<noteq> None"
  proof (intro ballI impI)
    fix i assume "i \<in> set items" "has_type ''function_call'' i"
    then have "i \<in> set (filter (has_type ''function_call'') items)" by simp
    with one_call tool show "tool_call_of parse i \<noteq> None" by simp
  qed
  from process_items_effect [OF readable texts calls, of ?s1] one_message one_call tool
  show ?thesis
    unfolding run by (simp add: console_log_def)
qed

theorem response_done_message_and_function_call_witness:
  "fst (onmessage JSON_parse response_done_frame fresh_page) = None \<and>
   messages (snd (onmessage JSON_parse response_done_frame fresh_page)) = [(JStr ''Hi'', AI)] \<and>
   invoked (snd (onmessage JSON_parse response_done_frame fresh_page)) =
     [GetWeatherData JUndefined JUndefined (JStr ''Paris'')]"
proof -
  let ?m = "JObj [(''type'', JStr ''message''),
                  (''content'', JArr [JObj [(''type'', JStr ''text''), (''text'', JStr ''Hi'')]])]"
  let ?f = "JObj [(''type'', JStr ''function_call''),
                  (''name'', JStr ''getWeatherData''),
                  (''arguments'', JStr (''{'' @ [CHR 0x22] @ ''locationName'' @ [CHR 0x22] @ '':''
                                         @ [CHR 0x22] @ ''Paris'' @ [CHR 0x22] @ ''}''))]"
  let ?ev = "JObj [(''type'', JStr ''response.done''),
                   (''response'', JObj [(''output'', JArr [?m, ?f])])]"
  have ev: "JSON_parse (JStr response_done_frame) = Some ?ev"
    using parse_response_done_frame by simp
  have ty: "field ?ev ''type'' = Inr (JStr ''response.done'')"
    by (simp add: own_def)
  have out: "opt_field (opt_field ?ev ''response'') ''output'' = JArr [?m, ?f]"
    by (simp add: opt_field_def own_def)
  have readable: "\<forall>i\<in>set [?m, ?f]. \<not> nullish i"
    by (simp add: nullish_def)
  have one_message: "filter (has_type ''message'') [?m, ?f] = [?m]"
    by (simp add: has_type_def own_def)
  have one_call: "filter (has_type ''function_call'') [?m, ?f] = [?f]"
    by (simp add: has_type_def own_def)
  have has_text: "truthy (item_text ?m)" and text_is: "item_text ?m = JStr ''Hi''"
    by (simp_all add: item_text_def opt_field_def opt_index0_def own_def)
  have tool: "tool_call_of JSON_parse ?f = Some (GetWeatherData JUndefined JUndefined (JStr ''Paris''))"
    using parse_paris by (simp add: tool_call_of_def opt_field_def own_def nullish_def)
  from response_done_message_and_function_call
         [of JSON_parse response_done_frame ?ev "[?m, ?f]" ?m ?f _ fresh_page,
          OF ev ty out readable one_message one_call has_text tool] text_is
  show ?thesis by (simp add: fresh_page_def)
qed

text \<open>
  The claim as stated fails without those conditions. A message item that carries audio
  and a transcript gets no assistant entry; a function_call item naming no tool of the
  page starts no call; arguments that are not JSON make the handler throw, here before it
  reaches the message item.
\<close>

theorem response_done_counterexample:
  "messages (snd (onmessage JSON_parse audio_message_frame fresh_page)) = [] \<and>
   invoked (snd (onmessage JSON_parse unknown_tool_frame fresh_page)) = [] \<and>
   fst (onmessage JSON_parse bad_arguments_frame fresh_page) = Some SyntaxError \<and>
   messages (snd (onmessage JSON_parse bad_arguments_frame fresh_page)) = []"
proof -
  have a: "messages (snd (onmessage JSON_parse audio_message_frame fresh_page)) = []"
    using parse_audio_message_frame parse_empty_object by (simp add: dispatch_defs)
  have b: "invoked (snd (onmessage JSON_parse unknown_tool_frame fresh_page)) = []"
    using parse_unknown_tool_frame parse_empty_object by (simp add: dispatch_defs)
  have c: "fst (onmessage JSON_parse bad_arguments_frame fresh_page) = Some SyntaxError \<and>
           messages (snd (onmessage JSON_parse bad_arguments_frame fresh_page)) = []"
    using parse_bad_arguments_frame parse_open_brace by (simp add: dispatch_defs)
  from a b c show ?thesis by simp
qed

section \<open>Connecting\<close>

subsection \<open>The steps of a connect run\<close>

lemma session_key_non_2xx:
  assumes "\<not> ok response"
  shows "\<exists>e. session_key (Inr response) = Inl e"
  using assms by (simp add: session_key_def split: sum.splits)










lemma fst_exchange_offer_state:
  "fst (exchange_offer token a s) = fst (exchange_offer token' a s')"
  by (simp add: exchange_offer_def Let_def split: sum.splits option.splits)











subsection \<open>The example runs\<close>

lemma example_keys:
  "session_key (session_response good_attempt) = Inr (JStr ''ek_123'')"
  "session_key (session_response denied_attempt) = Inr (JStr ''ek_123'')"
  "session_key (session_response refused_attempt) = Inr (JStr ''ek_123'')"
  "session_key (session_response relay_down_attempt) = Inl (Error (JStr ''fetch failed''))"
  by (simp_all add: session_key_def good_attempt_def denied_attempt_def refused_attempt_def
      relay_down_attempt_def key_response_def own_def)

lemma fresh_page_fields:
  "\<not> isConnected fresh_page" "next_id fresh_page = 0" "\<not> hasWelcomed fresh_page"
  "sent fresh_page = []" "getUserMedia_calls fresh_page = 0"
  by (simp_all add: fresh_page_def)



subsection \<open>A failed credential request\<close>

text \<open>
  C3. When getEphemeralKey fails with an error \<open>e\<close> (the request is rejected, the relay
  answers non-2xx, or the answer cannot be read), the connect run stops there: the page is
  the one before the run but for the status line, the logged request and two console
  lines. getUserMedia has not been called, no peer connection exists, no stream is held.
  That a non-2xx answer makes getEphemeralKey fail is \<open>session_key_non_2xx\<close>.
\<close>

theorem toggleSession_no_media_without_key:
  assumes "\<not> isConnected s"
      and "session_key (session_response a) = Inl e"
  shows "toggleSession a s =
           s\<lparr>statusDiv := WithMessage ''Connection failed: '' e,
             requests := requests s @ [PostSession],
             console := console s @ [LogError ''Error getting session key:'', LogError ''Connection error:'']\<rparr> \<and>
         getUserMedia_calls (toggleSession a s) = getUserMedia_calls s \<and>
         peerConnection (toggleSession a s) = peerConnection s \<and>
         mediaStream (toggleSession a s) = mediaStream s"
proof -
  have "toggleSession a s =
      connection_failed e (console_error ''Error getting session key:''
        (fetch PostSession (updateStatus (Plain ''Connecting...'') s)))"
    using assms by (simp add: toggleSession_def getEphemeralKey_def)
  then show ?thesis
    by (simp add: connection_failed_def console_error_def fetch_def updateStatus_def)
qed

theorem toggleSession_no_media_without_key_witness:
  "\<not> isConnected fresh_page \<and>
   session_key (session_response relay_down_attempt) = Inl (Error (JStr ''fetch failed'')) \<and>
   toggleSession relay_down_attempt fresh_page =
     fresh_page\<lparr>statusDiv := WithMessage ''Connection failed: '' (Error (JStr ''fetch failed'')),
       requests := [PostSession],
       console := [LogError ''Error getting session key:'', LogError ''Connection error:'']\<rparr> \<and>
   getUserMedia_calls (toggleSession relay_down_attempt fresh_page) = 0"
  using toggleSession_no_media_without_key [OF fresh_page_fields(1) example_keys(4)]
    fresh_page_fields(1) example_keys(4)
  by (simp add: fresh_page_def)

subsection \<open>A failure after the credential\<close>






section \<open>The greeting\<close>

subsection \<open>The open handler\<close>
















subsection \<open>Repeated open events\<close>




section \<open>The greeting over the lifetime of the object\<close>

subsection \<open>The latch is out of reach of everything but the open handler\<close>

lemmas run_defs = toggleSession_def getEphemeralKey_def session_key_def setupWebRTC_def setupMicrophone_def
  getUserMedia_def createVisualizer_mic_def attach_audioTrack_def addTrack_def rethrow_def
  new_RTCPeerConnection_def createElement_audio_def createDataChannel_def exchange_offer_def
  and_then_def fetch_def console_log_def console_error_def updateStatus_def connection_failed_def
  good_attempt_def key_response_def answer_response_def fresh_page_def Let_def own_def
  channel_open_def onopen_def dataChannel_send_def send_def setDataChannel_def

lemma live_page_reached:
  "snd (channel_open onopen 2 (toggleSession good_attempt fresh_page)) = live_page"
  by (simp add: run_defs live_page_def fun_eq_iff)
















subsection \<open>Over the lifetime of the object\<close>












section \<open>getWeatherData\<close>

lemma truthy_default_null: "truthy (default_null v) = truthy v"
  by (cases v) (simp_all add: default_null_def)

lemma truthy_keeps_default: "truthy v \<Longrightarrow> default_null v = v"
  by (cases v) (simp_all add: default_null_def)

lemma locate_by_arguments:
  assumes "\<not> truthy locationName"
  shows "locate env lat lon locationName s = (Inr (lat, lon), s)"
  using assms by (simp add: locate_def)

lemma locate_found:
  assumes "truthy locationName"
      and "geocoding env = Inr geocodingData"
      and "field geocodingData ''results'' = Inr (JArr (location # others))"
      and "field location ''latitude'' = Inr la"
      and "field location ''longitude'' = Inr lo"
  shows "locate env lat lon locationName s = (Inr (la, lo), fetch (GetGeocoding locationName) s)"
  using assms by (simp add: locate_def Let_def)

lemma locate_not_found:
  assumes "truthy locationName"
      and "geocoding env = Inr geocodingData"
      and "field geocodingData ''results'' = Inr results"
      and "\<not> truthy results \<or> field results ''length'' = Inr (JNum 0)"
  shows "locate env lat lon locationName s =
           (Inl (Error (JStr ''Location not found'')), fetch (GetGeocoding locationName) s)"
  using assms by (auto simp: locate_def Let_def)

text \<open>
  With a truthy name the geocoding branch never reads the coordinates it was given, and
  nothing in the run reads the console: two runs that differ in them differ in the
  console only.
\<close>

lemma locate_truthy:
  assumes "truthy locationName"
  shows "locate env lat lon locationName s =
           (fst (locate env lat' lon' locationName s'), fetch (GetGeocoding locationName) s)"
  using assms by (simp add: locate_def Let_def split: sum.splits)

lemma sendDataToAPI_console:
  "fst (sendDataToAPI ty d (s\<lparr>console := c\<rparr>)) = fst (sendDataToAPI ty d s) \<and>
   (snd (sendDataToAPI ty d (s\<lparr>console := c\<rparr>)))\<lparr>console := []\<rparr> =
     (snd (sendDataToAPI ty d s))\<lparr>console := []\<rparr>"
  by (simp add: sendDataToAPI_def send_def and_then_def console_error_def Let_def
      split: option.splits)

lemma sendDataToAPI_requests:
  "requests (snd (sendDataToAPI ty d s)) = requests s"
  by (simp add: sendDataToAPI_def send_def and_then_def console_error_def Let_def
      split: option.splits)

text \<open>The run after its first console line, for the outcome of \<open>locate\<close>.\<close>

lemma getWeatherData_after_locate:
  assumes "locate env (default_null lat) (default_null lon) (default_null locationName)
             (console_log_values ''Function called: getWeatherData''
                [default_null lat, default_null lon, default_null locationName] s) = (r, s2)"
  shows "getWeatherData env lat lon locationName s =
     (case r of
        Inl e \<Rightarrow> (Some e, console_error ''Error fetching weather data:'' s2)
      | Inr (la, lo) \<Rightarrow>
          (case forecast env of
             Inl e \<Rightarrow> (Some e, console_error ''Error fetching weather data:'' (fetch (GetForecast la lo) s2))
           | Inr weatherData \<Rightarrow>
               (case sendDataToAPI ''weather'' weatherData (fetch (GetForecast la lo) s2) of
                  (Some e, s4) \<Rightarrow> (Some e, console_error ''Error fetching weather data:'' s4)
                | (None, s4) \<Rightarrow> (None, s4))))"
  using assms by (simp add: getWeatherData_def Let_def split: sum.splits prod.splits option.splits)

lemma getWeatherData_ignores_coordinates:
  assumes t: "truthy locationName"
  shows "fst (getWeatherData env lat lon locationName s) =
           fst (getWeatherData env lat' lon' locationName s) \<and>
         (snd (getWeatherData env lat lon locationName s))\<lparr>console := []\<rparr> =
           (snd (getWeatherData env lat' lon' locationName s))\<lparr>console := []\<rparr>"
proof -
  have name: "default_null locationName = locationName"
    using t by (rule truthy_keeps_default)
  let ?geo = "GetGeocoding locationName"
  let ?r = "fst (locate env JNull JNull locationName s)"
  let ?c = "console s @ [LogValues ''Function called: getWeatherData''
                           [default_null lat, default_null lon, locationName]]"
  let ?c' = "console s @ [LogValues ''Function called: getWeatherData''
                           [default_null lat', default_null lon', locationName]]"
  let ?b = "s\<lparr>requests := requests s @ [?geo]\<rparr>"
  have l: "locate env (default_null lat) (default_null lon) (default_null locationName)
             (console_log_values ''Function called: getWeatherData''
                [default_null lat, default_null lon, default_null locationName] s) =
           (?r, ?b\<lparr>console := ?c\<rparr>)"
    using locate_truthy [OF t, of env "default_null lat" "default_null lon" _ JNull JNull s]
    by (simp add: name fetch_def console_log_values_def)
  have l': "locate env (default_null lat') (default_null lon') (default_null locationName)
             (console_log_values ''Function called: getWeatherData''
                [default_null lat', default_null lon', default_null locationName] s) =
           (?r, ?b\<lparr>console := ?c'\<rparr>)"
    using locate_truthy [OF t, of env "default_null lat'" "default_null lon'" _ JNull JNull s]
    by (simp add: name fetch_def console_log_values_def)
  note g = getWeatherData_after_locate [OF l]
  note g' = getWeatherData_after_locate [OF l']
  show ?thesis
  proof (cases ?r)
    case (Inl e)
    then show ?thesis
      unfolding g g' by (simp add: console_error_def)
  next
    case (Inr ll)
    obtain la lo where ll: "ll = (la, lo)" by (cases ll)
    show ?thesis
    proof (cases "forecast env")
      case (Inl e)
      with Inr ll show ?thesis
        unfolding g g' by (simp add: console_error_def fetch_def)
    next
      case w: (Inr weatherData)
      let ?f = "fetch (GetForecast la lo) ?b"
      have f: "\<And>c. fetch (GetForecast la lo) (?b\<lparr>console := c\<rparr>) = ?f\<lparr>console := c\<rparr>"
        by (simp add: fetch_def)
      obtain r0 s0 where sd0: "sendDataToAPI ''weather'' weatherData ?f = (r0, s0)"
        by (cases "sendDataToAPI ''weather'' weatherData ?f")
      obtain r3 s3 where sd: "sendDataToAPI ''weather'' weatherData (?f\<lparr>console := ?c\<rparr>) = (r3, s3)"
        by (cases "sendDataToAPI ''weather'' weatherData (?f\<lparr>console := ?c\<rparr>)")
      obtain r3' s3' where sd': "sendDataToAPI ''weather'' weatherData (?f\<lparr>console := ?c'\<rparr>) = (r3', s3')"
        by (cases "sendDataToAPI ''weather'' weatherData (?f\<lparr>console := ?c'\<rparr>)")
      have "r3 = r0 \<and> s3\<lparr>console := []\<rparr> = s0\<lparr>console := []\<rparr>"
        using sendDataToAPI_console [where ty = "''weather''" and d = weatherData and s = ?f and c = ?c] sd sd0 by simp
      moreover have "r3' = r0 \<and> s3'\<lparr>console := []\<rparr> = s0\<lparr>console := []\<rparr>"
        using sendDataToAPI_console [where ty = "''weather''" and d = weatherData and s = ?f and c = ?c'] sd' sd0 by simp
      ultimately have same: "r3' = r3" "s3'\<lparr>console := []\<rparr> = s3\<lparr>console := []\<rparr>"
        by simp_all
      from Inr ll w sd sd' same show ?thesis
        unfolding g g' by (cases r3) (simp_all add: console_error_def f)
    qed
  qed
qed


text \<open>
  C10, as the code has it. The guard is \<^verbatim>\<open>if (locationName)\<close>, a test of truthiness,
  so the geocoding branch is taken for a truthy name and skipped for every other one,
  null or not.

  For a truthy name the \<^verbatim>\<open>lat\<close> and \<^verbatim>\<open>lon\<close> arguments appear in the first
  console line and nowhere else: two runs that differ in them throw or return alike and
  leave pages that differ in the console only. When the lookup answers with a results
  array, the forecast is requested for the latitude and longitude of its first element;
  when it answers without results (a missing, empty or otherwise falsy
  \<^verbatim>\<open>results\<close>, or one of length 0), the run throws \<^verbatim>\<open>Location not found\<close>
  after logging, having issued the geocoding request only and sent nothing on the channel.

  For a name that is not truthy (null, undefined, the empty string, 0, false) no
  geocoding request is issued and the forecast is requested for the \<^verbatim>\<open>lat\<close> and
  \<^verbatim>\<open>lon\<close> that were passed, null where they were undefined.
\<close>

theorem getWeatherData_by_name:
  "(truthy locationName \<longrightarrow>
      fst (getWeatherData env lat lon locationName s) =
        fst (getWeatherData env lat' lon' locationName s) \<and>
      (snd (getWeatherData env lat lon locationName s))\<lparr>console := []\<rparr> =
        (snd (getWeatherData env lat' lon' locationName s))\<lparr>console := []\<rparr> \<and>
      (\<forall>geocodingData location others la lo.
         geocoding env = Inr geocodingData \<and>
         field geocodingData ''results'' = Inr (JArr (location # others)) \<and>
         field location ''latitude'' = Inr la \<and>
         field location ''longitude'' = Inr lo \<longrightarrow>
         requests (snd (getWeatherData env lat lon locationName s)) =
           requests s @ [GetGeocoding locationName, GetForecast la lo]) \<and>
      (\<forall>geocodingData results.
         geocoding env = Inr geocodingData \<and>
         field geocodingData ''results'' = Inr results \<and>
         (\<not> truthy results \<or> field results ''length'' = Inr (JNum 0)) \<longrightarrow>
         getWeatherData env lat lon locationName s =
           (Some (Error (JStr ''Location not found'')),
            s\<lparr>requests := requests s @ [GetGeocoding locationName],
              console := console s @
                [LogValues ''Function called: getWeatherData''
                   [default_null lat, default_null lon, locationName],
                 LogError ''Error fetching weather data:'']\<rparr>) \<and>
         sent (snd (getWeatherData env lat lon locationName s)) = sent s)) \<and>
   (\<not> truthy locationName \<longrightarrow>
      requests (snd (getWeatherData env lat lon locationName s)) =
        requests s @ [GetForecast (default_null lat) (default_null lon)])"
proof (intro conjI allI impI)
  let ?log = "console_log_values ''Function called: getWeatherData''
                [default_null lat, default_null lon, default_null locationName] s"
  {
    assume t: "truthy locationName"
    then have name: "default_null locationName = locationName"
      by (rule truthy_keeps_default)
    from t show "fst (getWeatherData env lat lon locationName s) =
                   fst (getWeatherData env lat' lon' locationName s)"
      by (simp add: getWeatherData_ignores_coordinates)
    from t show "(snd (getWeatherData env lat lon locationName s))\<lparr>console := []\<rparr> =
                   (snd (getWeatherData env lat' lon' locationName s))\<lparr>console := []\<rparr>"
      by (simp add: getWeatherData_ignores_coordinates)
    {
      fix geocodingData location others la lo
      assume "geocoding env = Inr geocodingData \<and>
              field geocodingData ''results'' = Inr (JArr (location # others)) \<and>
              field location ''latitude'' = Inr la \<and>
              field location ''longitude'' = Inr lo"
      then have l: "locate env (default_null lat) (default_null lon) (default_null locationName)
                      ?log = (Inr (la, lo), fetch (GetGeocoding locationName) ?log)"
        using t by (simp add: locate_found name)
      let ?s2 = "fetch (GetForecast la lo) (fetch (GetGeocoding locationName) ?log)"
      have rq: "requests ?s2 = requests s @ [GetGeocoding locationName, GetForecast la lo]"
        by (simp add: fetch_def console_log_values_def)
      note g = getWeatherData_after_locate [OF l]
      show "requests (snd (getWeatherData env lat lon locationName s)) =
                requests s @ [GetGeocoding locationName, GetForecast la lo]"
      proof (cases "forecast env")
        case (Inl e)
        with rq show ?thesis
          unfolding g by (simp add: console_error_def)
      next
        case (Inr weatherData)
        obtain r3 s3 where sd: "sendDataToAPI ''weather'' weatherData ?s2 = (r3, s3)"
          by (cases "sendDataToAPI ''weather'' weatherData ?s2")
        have "requests (snd (sendDataToAPI ''weather'' weatherData ?s2)) = requests ?s2"
          by (rule sendDataToAPI_requests)
        with sd rq have "requests s3 = requests s @ [GetGeocoding locationName, GetForecast la lo]"
          by simp
        with Inr sd show ?thesis
          unfolding g by (cases r3) (simp_all add: console_error_def)
      qed
    }
    {
      fix geocodingData results
      assume "geocoding env = Inr geocodingData \<and>
              field geocodingData ''results'' = Inr results \<and>
              (\<not> truthy results \<or> field results ''length'' = Inr (JNum 0))"
      then have l: "locate env (default_null lat) (default_null lon) (default_null locationName)
                      ?log = (Inl (Error (JStr ''Location not found'')),
                              fetch (GetGeocoding locationName) ?log)"
        using t by (simp add: locate_not_found name)
      show r: "getWeatherData env lat lon locationName s =
                (Some (Error (JStr ''Location not found'')),
                 s\<lparr>requests := requests s @ [GetGeocoding locationName],
                   console := console s @
                     [LogValues ''Function called: getWeatherData''
                        [default_null lat, default_null lon, locationName],
                      LogError ''Error fetching weather data:'']\<rparr>)"
        unfolding getWeatherData_after_locate [OF l]
        by (simp add: name fetch_def console_log_values_def console_error_def)
      then show "sent (snd (getWeatherData env lat lon locationName s)) = sent s"
        by simp
    }
  }
  {
    assume "\<not> truthy locationName"
    then have l: "locate env (default_null lat) (default_null lon) (default_null locationName)
                    ?log = (Inr (default_null lat, default_null lon), ?log)"
      by (simp add: locate_by_arguments truthy_default_null)
    let ?s2 = "fetch (GetForecast (default_null lat) (default_null lon)) ?log"
    have rq: "requests ?s2 = requests s @ [GetForecast (default_null lat) (default_null lon)]"
      by (simp add: fetch_def console_log_values_def)
    note g = getWeatherData_after_locate [OF l]
    show "requests (snd (getWeatherData env lat lon locationName s)) =
            requests s @ [GetForecast (default_null lat) (default_null lon)]"
    proof (cases "forecast env")
      case (Inl e)
      with rq show ?thesis
        unfolding g by (simp add: console_error_def)
    next
      case (Inr weatherData)
      obtain r3 s3 where sd: "sendDataToAPI ''weather'' weatherData ?s2 = (r3, s3)"
        by (cases "sendDataToAPI ''weather'' weatherData ?s2")
      have "requests (snd (sendDataToAPI ''weather'' weatherData ?s2)) = requests ?s2"
        by (rule sendDataToAPI_requests)
      with sd rq have "requests s3 = requests s @ [GetForecast (default_null lat) (default_null lon)]"
        by simp
      with Inr sd show ?thesis
        unfolding g by (cases r3) (simp_all add: console_error_def)
    qed
  }
qed

theorem getWeatherData_by_name_witness:
  "truthy (JStr ''Paris'') \<and> \<not> truthy (JStr []) \<and>
   fst (getWeatherData paris_lookups (JNum 1) (JNum 2) (JStr ''Paris'') fresh_page) =
     fst (getWeatherData paris_lookups JNull JNull (JStr ''Paris'') fresh_page) \<and>
   (snd (getWeatherData paris_lookups (JNum 1) (JNum 2) (JStr ''Paris'') fresh_page))\<lparr>console := []\<rparr> =
     (snd (getWeatherData paris_lookups JNull JNull (JStr ''Paris'') fresh_page))\<lparr>console := []\<rparr> \<and>
   requests (snd (getWeatherData paris_lookups (JNum 1) (JNum 2) (JStr ''Paris'') fresh_page)) =
     [GetGeocoding (JStr ''Paris''), GetForecast (JNum (4885 / 100)) (JNum (235 / 100))] \<and>
   getWeatherData nowhere_lookups (JNum 1) (JNum 2) (JStr ''Paris'') fresh_page =
     (Some (Error (JStr ''Location not found'')),
      fresh_page\<lparr>requests := [GetGeocoding (JStr ''Paris'')],
                 console := [LogValues ''Function called: getWeatherData''
                               [JNum 1, JNum 2, JStr ''Paris''],
                             LogError ''Error fetching weather data:'']\<rparr>) \<and>
   requests (snd (getWeatherData nowhere_lookups (JNum 5) JUndefined (JStr []) fresh_page)) =
     [GetForecast (JNum 5) JNull]"
proof -
  let ?loc = "JObj [(''name'', JStr ''Paris''), (''latitude'', JNum (4885 / 100)),
                    (''longitude'', JNum (235 / 100))]"
  let ?g = "JObj [(''results'', JArr [?loc])]"
  let ?n = "JObj [(''generationtime_ms'', JNum 1)]"
  have t: "truthy (JStr ''Paris'')" by simp
  have f: "\<not> truthy (JStr [])" by simp
  have found: "geocoding paris_lookups = Inr ?g \<and>
               field ?g ''results'' = Inr (JArr (?loc # [])) \<and>
               field ?loc ''latitude'' = Inr (JNum (4885 / 100)) \<and>
               field ?loc ''longitude'' = Inr (JNum (235 / 100))"
    by (simp add: paris_lookups_def own_def)
  have none: "geocoding nowhere_lookups = Inr ?n \<and>
              field ?n ''results'' = Inr JUndefined \<and>
              (\<not> truthy JUndefined \<or> field JUndefined ''length'' = Inr (JNum 0))"
    by (simp add: nowhere_lookups_def own_def)
  note p = getWeatherData_by_name
             [where locationName = "JStr ''Paris''" and env = paris_lookups and lat = "JNum 1"
                and lon = "JNum 2" and s = fresh_page and lat' = JNull and lon' = JNull]
  note q = getWeatherData_by_name
             [where locationName = "JStr ''Paris''" and env = nowhere_lookups and lat = "JNum 1"
                and lon = "JNum 2" and s = fresh_page and lat' = JNull and lon' = JNull]
  note e = getWeatherData_by_name
             [where locationName = "JStr []" and env = nowhere_lookups and lat = "JNum 5"
                and lon = JUndefined and s = fresh_page and lat' = JNull and lon' = JNull]
  from p t have same:
    "fst (getWeatherData paris_lookups (JNum 1) (JNum 2) (JStr ''Paris'') fresh_page) =
       fst (getWeatherData paris_lookups JNull JNull (JStr ''Paris'') fresh_page)"
    "(snd (getWeatherData paris_lookups (JNum 1) (JNum 2) (JStr ''Paris'') fresh_page))\<lparr>console := []\<rparr> =
       (snd (getWeatherData paris_lookups JNull JNull (JStr ''Paris'') fresh_page))\<lparr>console := []\<rparr>"
    by blast+
  from p t found have rq:
    "requests (snd (getWeatherData paris_lookups (JNum 1) (JNum 2) (JStr ''Paris'') fresh_page)) =
       requests fresh_page @ [GetGeocoding (JStr ''Paris''), GetForecast (JNum (4885 / 100)) (JNum (235 / 100))]"
    by blast
  from q t none have nf:
    "getWeatherData nowhere_lookups (JNum 1) (JNum 2) (JStr ''Paris'') fresh_page =
       (Some (Error (JStr ''Location not found'')),
        fresh_page\<lparr>requests := requests fresh_page @ [GetGeocoding (JStr ''Paris'')],
                   console := console fresh_page @
                     [LogValues ''Function called: getWeatherData''
                        [default_null (JNum 1), default_null (JNum 2), JStr ''Paris''],
                      LogError ''Error fetching weather data:'']\<rparr>)"
    by blast
  from e f have em:
    "requests (snd (getWeatherData nowhere_lookups (JNum 5) JUndefined (JStr []) fresh_page)) =
       requests fresh_page @ [GetForecast (default_null (JNum 5)) (default_null JUndefined)]"
    by blast
  from t f same rq nf em show ?thesis
    by (simp add: fresh_page_def default_null_def)
qed

text \<open>
  The claim as stated fails for the name \<^verbatim>\<open>""\<close>, which is not null: no geocoding
  request is made, and the forecast is requested for the \<^verbatim>\<open>lat\<close> and \<^verbatim>\<open>lon\<close>
  that were passed, whatever they are, although the lookup would have found Paris.
\<close>

theorem getWeatherData_empty_name_counterexample:
  "requests (snd (getWeatherData paris_lookups (JNum 1) (JNum 2) (JStr []) fresh_page)) =
     [GetForecast (JNum 1) (JNum 2)] \<and>
   requests (snd (getWeatherData paris_lookups (JNum 3) (JNum 4) (JStr []) fresh_page)) =
     [GetForecast (JNum 3) (JNum 4)]"
  by (simp add: getWeatherData_def locate_def default_null_def sendDataToAPI_def
      console_log_values_def console_error_def fetch_def paris_lookups_def fresh_page_def Let_def)

end
